theory Spec2Isabelle
  imports Complex_Main "HOL-Library.Sublist" "HOL-Library.Char_ord" "HOL-Library.List_Lexorder"
    "HOL-Library.AList" "HOL-Library.Multiset"
begin

section \<open>Python values\<close>

text \<open>
  The scalar values that occur in provider payloads and in request metadata: \<open>None\<close>,
  booleans, integers and strings. Floats and nested containers are outside this type.
  A Python \<open>dict\<close> with string keys is an association list in insertion order.
\<close>

datatype pyval = PNone | PBool bool | PInt int | PStr string

type_synonym pydict = "(string \<times> pyval) list"

text \<open>Truthiness, as \<open>if v\<close> tests it.\<close>

fun truthy :: "pyval \<Rightarrow> bool" where
  "truthy PNone = False"
| "truthy (PBool b) = b"
| "truthy (PInt n) = (n \<noteq> 0)"
| "truthy (PStr s) = (s \<noteq> [])"

text \<open>Equality \<open>==\<close>: a boolean is the integer 0 or 1; otherwise values of different types differ.\<close>

fun py_eq :: "pyval \<Rightarrow> pyval \<Rightarrow> bool" where
  "py_eq (PBool b) (PInt n) = ((if b then 1 else 0) = n)"
| "py_eq (PInt n) (PBool b) = (n = (if b then 1 else 0))"
| "py_eq x y = (x = y)"

definition digit_char :: "nat \<Rightarrow> char" where
  "digit_char d = char_of (48 + d)"

function str_nat :: "nat \<Rightarrow> string" where
  "str_nat n = (if n < 10 then [digit_char n] else str_nat (n div 10) @ [digit_char (n mod 10)])"
  by pat_completeness auto
termination
  by (relation "measure id") auto

definition str_int :: "int \<Rightarrow> string" where
  "str_int i = (if i < 0 then CHR ''-'' # str_nat (nat (- i)) else str_nat (nat i))"

text \<open>\<open>str(v)\<close>, as an f-string formats a value.\<close>

fun py_str :: "pyval \<Rightarrow> string" where
  "py_str PNone = ''None''"
| "py_str (PBool b) = (if b then ''True'' else ''False'')"
| "py_str (PInt n) = str_int n"
| "py_str (PStr s) = s"

text \<open>\<open>d[k] = v\<close>: an existing key keeps its place, a new key goes last.\<close>

definition setitem :: "pydict \<Rightarrow> string \<Rightarrow> pyval \<Rightarrow> pydict" where
  "setitem d k v = AList.update k v d"

text \<open>\<open>d.get(k)\<close>: \<open>None\<close> for a missing key.\<close>

definition dict_get :: "pydict \<Rightarrow> string \<Rightarrow> pyval" where
  "dict_get d k = (case map_of d k of None \<Rightarrow> PNone | Some v \<Rightarrow> v)"

section \<open>Exceptions\<close>

text \<open>
  The exceptions the modelled code raises or catches, all subclasses of \<open>Exception\<close>.
  \<open>HTTPException\<close> carries its status code and detail; \<open>KeyError\<close> the missing key;
  the others the text \<open>str(err)\<close> gives.
\<close>

datatype exn =
    HTTPException int string
  | KeyError string
  | AttributeError string
  | ValueError string
  | IntegrityError string
  | OperationalError string
  | TransportError string

fun str_exn :: "exn \<Rightarrow> string" where
  "str_exn (HTTPException c d) = str_int c @ '': '' @ d"
| "str_exn (KeyError k) = [CHR 0x27] @ k @ [CHR 0x27]"
| "str_exn (AttributeError m) = m"
| "str_exn (ValueError m) = m"
| "str_exn (IntegrityError m) = m"
| "str_exn (OperationalError m) = m"
| "str_exn (TransportError m) = m"

section \<open>The payment provider client (utils/credit/ezfp.py)\<close>

subsection \<open>Device classification\<close>

text \<open>
  \<open>str.lower()\<close> on the code points below 256 (a header value is decoded as Latin-1):
  \<open>A\<close>..\<open>Z\<close> and the accented capitals 0xC0..0xDE, except the multiplication sign 0xD7,
  move up by 32.
\<close>

definition lower_char :: "char \<Rightarrow> char" where
  "lower_char c =
     (let n = of_char c :: nat in
      if (65 \<le> n \<and> n \<le> 90) \<or> (192 \<le> n \<and> n \<le> 222 \<and> n \<noteq> 215) then char_of (n + 32) else c)"

definition lower :: "string \<Rightarrow> string" where
  "lower s = map lower_char s"

text \<open>\<open>s.find(sub)\<close>: the lowest index where \<open>sub\<close> starts in \<open>s\<close>, or \<open>-1\<close>.\<close>

fun find_from :: "string \<Rightarrow> string \<Rightarrow> int \<Rightarrow> int" where
  "find_from sub [] i = (if sub = [] then i else - 1)"
| "find_from sub (c # cs) i = (if prefix sub (c # cs) then i else find_from sub cs (i + 1))"

definition find_str :: "string \<Rightarrow> string \<Rightarrow> int" where
  "find_str s sub = find_from sub s 0"

definition get_device_from_ua :: "string \<Rightarrow> string" where
  "get_device_from_ua ua0 =
     (let ua = lower ua0 in
      if find_str ua ''micromessenger'' \<noteq> - 1 then ''wechat''
      else if find_str ua ''qq'' \<noteq> - 1 then ''qq''
      else if find_str ua ''alipay'' \<noteq> - 1 then ''alipay''
      else if find_str ua ''android'' \<noteq> - 1 \<or> find_str ua ''iphone'' \<noteq> - 1 then ''mobile''
      else ''pc'')"

subsection \<open>Signing and verification\<close>

text \<open>
  The configuration (\<open>open_webui.config\<close>) is a parameter: the merchant id \<open>EZFP_PID.value\<close>,
  the shared secret \<open>EZFP_KEY.value\<close>, the endpoint, the callback host, the display name, and the default
  balance \<open>Decimal(CREDIT_DEFAULT_CREDIT.value)\<close>.
  The database engine that is configured is a parameter too, as far as it decides what a
  \<open>Numeric(precision=24, scale=12)\<close> column does to a value: \<open>numeric_write\<close> is what the
  column keeps of a value written to it, \<open>numeric_read\<close> what a query returns for the value
  kept. PostgreSQL rounds to twelve fractional digits when the value is written; with
  SQLite the value written is kept and the value read is rounded to twelve digits.
  The digest \<open>hashlib.md5(s.encode()).hexdigest()\<close> is a parameter \<open>md5\<close> of the functions
  that hash.
\<close>

record config =
  EZFP_PID :: pyval
  EZFP_KEY :: string
  EZFP_ENDPOINT :: string
  EZFP_CALLBACK_HOST :: string
  WEBUI_NAME :: string
  CREDIT_DEFAULT_CREDIT :: rat
  numeric_write :: "rat \<Rightarrow> rat"
  numeric_read :: "rat \<Rightarrow> rat"

text \<open>\<open>"&".join(params)\<close>\<close>

fun join_amp :: "string list \<Rightarrow> string" where
  "join_amp [] = []"
| "join_amp [p] = p"
| "join_amp (p # q # ps) = p @ ''&'' @ join_amp (q # ps)"

text \<open>The list comprehension of \<open>sign\<close>: \<open>k=v\<close> for each item with a truthy value and a key
  other than \<open>sign\<close> and \<open>sign_type\<close>.\<close>

definition sign_params :: "pydict \<Rightarrow> string list" where
  "sign_params payload =
     map (\<lambda>(k, v). k @ ''='' @ py_str v)
       (filter (\<lambda>(k, v). truthy v \<and> k \<notin> set [''sign'', ''sign_type'']) payload)"

definition plain_text :: "config \<Rightarrow> pydict \<Rightarrow> string" where
  "plain_text cfg payload = join_amp (sort (sign_params payload)) @ EZFP_KEY cfg"

definition sign :: "(string \<Rightarrow> string) \<Rightarrow> config \<Rightarrow> pydict \<Rightarrow> pydict" where
  "sign md5 cfg payload =
     setitem (setitem payload ''sign'' (PStr (md5 (plain_text cfg payload))))
       ''sign_type'' (PStr ''MD5'')"

text \<open>\<open>payload[k]\<close> raises \<open>KeyError\<close> for a missing key.\<close>

definition getitem :: "pydict \<Rightarrow> string \<Rightarrow> exn + pyval" where
  "getitem d k = (case map_of d k of None \<Rightarrow> Inl (KeyError k) | Some v \<Rightarrow> Inr v)"

text \<open>
  \<open>verify\<close> signs a deep copy, so the caller's payload is not changed. The operands are
  read left to right, and \<open>and\<close> reads \<open>payload["sign_type"]\<close> only when the signatures
  are equal.
\<close>

definition verify :: "(string \<Rightarrow> string) \<Rightarrow> config \<Rightarrow> pydict \<Rightarrow> exn + bool" where
  "verify md5 cfg payload =
     (case getitem payload ''pid'' of
        Inl e \<Rightarrow> Inl e
      | Inr pid \<Rightarrow>
          if \<not> py_eq pid (EZFP_PID cfg) then Inr False
          else
            let payload2 = sign md5 cfg payload in
            (case getitem payload ''sign'' of
               Inl e \<Rightarrow> Inl e
             | Inr s \<Rightarrow>
                 (case getitem payload2 ''sign'' of
                    Inl e \<Rightarrow> Inl e
                  | Inr s2 \<Rightarrow>
                      if \<not> py_eq s s2 then Inr False
                      else
                        (case getitem payload ''sign_type'' of
                           Inl e \<Rightarrow> Inl e
                         | Inr t \<Rightarrow>
                             (case getitem payload2 ''sign_type'' of
                                Inl e \<Rightarrow> Inl e
                              | Inr t2 \<Rightarrow> Inr (py_eq t t2))))))"

subsection \<open>Creating a trade\<close>

text \<open>\<open>s.rstrip('/')\<close>\<close>

definition rstrip_slash :: "string \<Rightarrow> string" where
  "rstrip_slash s = rev (dropWhile (\<lambda>c. c = CHR ''/'') (rev s))"

text \<open>
  \<open>create_trade\<close>. Its parameters stand for what the source calls outside this repository:
  \<open>py_int\<close> is the builtin \<open>int()\<close> (it raises on a value that is no number), \<open>fmt2f\<close> is
  \<open>"%.2f" % amount\<close>, \<open>post\<close> is \<open>await client.post(url=..., params=...)\<close> and \<open>resp_json\<close> is
  \<open>resp.json()\<close>; the last two return the exception they raise as \<open>Inl\<close>.

  \<open>trade_request\<close> is the part before the \<open>try\<close>: the signed payload, and the URL it is posted
  to.
\<close>

definition trade_request ::
  "(string \<Rightarrow> string) \<Rightarrow> config \<Rightarrow> ('f \<Rightarrow> string) \<Rightarrow> int \<Rightarrow>
   string \<Rightarrow> string \<Rightarrow> 'f \<Rightarrow> string \<Rightarrow> string \<Rightarrow> string \<times> pydict" where
  "trade_request md5 cfg fmt2f pid pay_type out_trade_no amount client_ip ua =
     (let payload =
            [(''pid'', PInt pid),
             (''type'', PStr pay_type),
             (''out_trade_no'', PStr out_trade_no),
             (''notify_url'',
                PStr (rstrip_slash (EZFP_CALLBACK_HOST cfg) @ ''/api/v1/credit/callback'')),
             (''return_url'', PStr (EZFP_CALLBACK_HOST cfg)),
             (''name'', PStr (WEBUI_NAME cfg @ '' Credit'')),
             (''money'', PStr (fmt2f amount)),
             (''clientip'', PStr client_ip),
             (''device'', PStr (get_device_from_ua ua))];
          payload = sign md5 cfg payload
      in (rstrip_slash (EZFP_ENDPOINT cfg) @ ''/mapi.php'', payload))"

text \<open>
  The payload is built before the \<open>try\<close>, so an exception of \<open>int()\<close> leaves the function.
  \<open>except Exception\<close> turns every exception of the two calls inside the \<open>try\<close> into the
  returned dictionary; closing the client in \<open>finally\<close> has no result.
\<close>

definition create_trade ::
  "(string \<Rightarrow> string) \<Rightarrow> config \<Rightarrow> (pyval \<Rightarrow> exn + int) \<Rightarrow> ('f \<Rightarrow> string) \<Rightarrow>
   (string \<Rightarrow> pydict \<Rightarrow> exn + 'r) \<Rightarrow> ('r \<Rightarrow> exn + pydict) \<Rightarrow>
   string \<Rightarrow> string \<Rightarrow> 'f \<Rightarrow> string \<Rightarrow> string \<Rightarrow> exn + pydict" where
  "create_trade md5 cfg py_int fmt2f post resp_json pay_type out_trade_no amount client_ip ua =
     (case py_int (EZFP_PID cfg) of
        Inl e \<Rightarrow> Inl e
      | Inr pid \<Rightarrow>
          (let (url, payload) =
                 trade_request md5 cfg fmt2f pid pay_type out_trade_no amount client_ip ua
           in
           (case post url payload of
              Inl err \<Rightarrow> Inr [(''code'', PInt (- 1)), (''msg'', PStr (str_exn err))]
            | Inr resp \<Rightarrow>
                (case resp_json resp of
                   Inl err \<Rightarrow> Inr [(''code'', PInt (- 1)), (''msg'', PStr (str_exn err))]
                 | Inr body \<Rightarrow> Inr body))))"

section \<open>The credit ledger (models/credits.py)\<close>

subsection \<open>Tables and forms\<close>

text \<open>
  A \<open>Decimal\<close> is an exact rational number. The fields of each table carry a prefix, since
  the three tables share the names \<open>id\<close>, \<open>user_id\<close> and \<open>created_at\<close>. A log's \<open>detail\<close> is
  the dump of a \<open>SetCreditFormDetail\<close>.
\<close>

record Credit =
  cr_id :: string
  cr_user_id :: string
  cr_credit :: rat
  cr_updated_at :: int
  cr_created_at :: int

record SetCreditFormDetail =
  api_path :: string
  api_params :: pydict
  desc :: string
  usage :: pydict

record CreditLog =
  log_id :: string
  log_user_id :: string
  log_credit :: rat
  log_detail :: SetCreditFormDetail
  log_created_at :: int

record TradeTicket =
  tk_id :: string
  tk_user_id :: string
  tk_amount :: rat
  tk_detail :: pydict
  tk_created_at :: int

record AddCreditForm =
  add_user_id :: string
  add_amount :: rat
  add_detail :: SetCreditFormDetail

record SetCreditForm =
  set_user_id :: string
  set_credit :: rat
  set_detail :: SetCreditFormDetail

subsection \<open>The database and its surroundings\<close>

text \<open>The three tables, each in insertion order, with the values their columns keep.\<close>

record db =
  credit_tbl :: "Credit list"
  credit_log_tbl :: "CreditLog list"
  trade_ticket_tbl :: "TradeTicket list"

text \<open>
  The state a call runs in: the committed database; a schedule of persistence faults, one
  flag for each round trip to the database still to come (\<open>True\<close>: that round trip raises;
  an exhausted schedule means no fault); and the error annotations the conversation store
  has received, each with its chat id, message id and error content.
\<close>

record world =
  store :: db
  faults :: "bool list"
  chat_errors :: "(pyval \<times> pyval \<times> string) list"

text \<open>
  What a call draws from outside: the clock reading \<open>int(time.time())\<close> (one reading for the
  whole call) and the values of \<open>uuid.uuid4().hex\<close> for a new credit row and a new log row.
\<close>

record env =
  now :: int
  credit_uuid :: string
  log_uuid :: string

text \<open>
  The pydantic models with their default factories: \<open>id\<close> is a fresh uuid (the caller gives
  the id of a ticket), the times are the clock reading.
\<close>

definition CreditModel :: "env \<Rightarrow> string \<Rightarrow> rat \<Rightarrow> Credit" where
  "CreditModel e user_id credit =
     \<lparr>cr_id = credit_uuid e, cr_user_id = user_id, cr_credit = credit,
      cr_updated_at = now e, cr_created_at = now e\<rparr>"

definition CreditLogModel :: "env \<Rightarrow> string \<Rightarrow> rat \<Rightarrow> SetCreditFormDetail \<Rightarrow> CreditLog" where
  "CreditLogModel e user_id credit detail =
     \<lparr>log_id = log_uuid e, log_user_id = user_id, log_credit = credit, log_detail = detail,
      log_created_at = now e\<rparr>"

definition TradeTicketModel ::
  "env \<Rightarrow> string \<Rightarrow> string \<Rightarrow> rat \<Rightarrow> pydict \<Rightarrow> TradeTicket" where
  "TradeTicketModel e ticket_id user_id amount detail =
     \<lparr>tk_id = ticket_id, tk_user_id = user_id, tk_amount = amount, tk_detail = detail,
      tk_created_at = now e\<rparr>"

text \<open>
  A row on its way into a table (\<open>db.add(Credit(**model.model_dump()))\<close>) and a row on its
  way out of a query (\<open>Model.model_validate(row)\<close>): the \<open>Numeric(24, 12)\<close> column of each
  table passes through \<open>numeric_write\<close> and \<open>numeric_read\<close>.
\<close>

definition write_credit :: "config \<Rightarrow> Credit \<Rightarrow> Credit" where
  "write_credit cfg c = c\<lparr>cr_credit := numeric_write cfg (cr_credit c)\<rparr>"

definition read_credit :: "config \<Rightarrow> Credit \<Rightarrow> Credit" where
  "read_credit cfg c = c\<lparr>cr_credit := numeric_read cfg (cr_credit c)\<rparr>"

definition write_log :: "config \<Rightarrow> CreditLog \<Rightarrow> CreditLog" where
  "write_log cfg l = l\<lparr>log_credit := numeric_write cfg (log_credit l)\<rparr>"

definition read_log :: "config \<Rightarrow> CreditLog \<Rightarrow> CreditLog" where
  "read_log cfg l = l\<lparr>log_credit := numeric_read cfg (log_credit l)\<rparr>"

definition write_ticket :: "config \<Rightarrow> TradeTicket \<Rightarrow> TradeTicket" where
  "write_ticket cfg t = t\<lparr>tk_amount := numeric_write cfg (tk_amount t)\<rparr>"

definition read_ticket :: "config \<Rightarrow> TradeTicket \<Rightarrow> TradeTicket" where
  "read_ticket cfg t = t\<lparr>tk_amount := numeric_read cfg (tk_amount t)\<rparr>"

text \<open>One round trip to the database: takes the next flag of the fault schedule.\<close>

definition db_call :: "world \<Rightarrow> bool \<times> world" where
  "db_call w = (case faults w of [] \<Rightarrow> (False, w) | f # fs \<Rightarrow> (f, w\<lparr>faults := fs\<rparr>))"

text \<open>
  Modelled from the spec: \<open>get_db\<close> of \<open>open_webui.internal.db\<close> and the session's
  \<open>commit\<close>, which are not among the sources. The statements of one \<open>with get_db() as db\<close>
  block work on a private copy \<open>work\<close> of the database, "a single durable transaction
  boundary ... with guaranteed commit-or-rollback on all exit paths": \<open>commit\<close> either raises
  (a fault, or a uniqueness constraint \<open>violated\<close> by a row the block added) and leaves the
  committed database as it was, or makes the copy the committed database.
\<close>

definition commit :: "string option \<Rightarrow> db \<Rightarrow> world \<Rightarrow> (exn + unit) \<times> world" where
  "commit violated work w =
     (let (f, w1) = db_call w in
      if f then (Inl (OperationalError ''commit failed''), w1)
      else
        (case violated of
           Some c \<Rightarrow> (Inl (IntegrityError (''UNIQUE constraint failed: '' @ c)), w1)
         | None \<Rightarrow> (Inr (), w1\<lparr>store := work\<rparr>)))"

text \<open>
  Modelled from the spec: \<open>Chats.upsert_message_to_chat_by_id_and_message_id\<close> of
  \<open>open_webui.models.chats\<close>, which is not among the sources; the conversation store's
  "annotateMessageError(conversationId, messageId, errorPayload)". The call is recorded.
\<close>

definition upsert_message_error :: "pyval \<Rightarrow> pyval \<Rightarrow> string \<Rightarrow> world \<Rightarrow> world" where
  "upsert_message_error chat_id message_id error_msg w =
     w\<lparr>chat_errors := chat_errors w @ [(chat_id, message_id, error_msg)]\<rparr>"

text \<open>\<open>SetCreditFormDetail(desc=...)\<close>: the other fields take their defaults.\<close>

definition SetCreditFormDetail_desc :: "string \<Rightarrow> SetCreditFormDetail" where
  "SetCreditFormDetail_desc d = \<lparr>api_path = [], api_params = [], desc = d, usage = []\<rparr>"

subsection \<open>CreditsTable\<close>

text \<open>
  \<open>get_credit_by_user_id\<close>: the first row of the user, as the query returns it;
  \<open>model_validate\<close> raises on no row, and every exception gives \<open>None\<close>.
\<close>

definition get_credit_by_user_id :: "config \<Rightarrow> string \<Rightarrow> world \<Rightarrow> Credit option \<times> world" where
  "get_credit_by_user_id cfg user_id w =
     (let (f, w1) = db_call w in
      if f then (None, w1)
      else
        (map_option (read_credit cfg)
           (find (\<lambda>c. cr_user_id c = user_id) (credit_tbl (store w1))), w1))"

text \<open>
  \<open>insert_new_credit\<close>: the primary key \<open>id\<close> and the unique \<open>user_id\<close> are checked when the
  row is committed; \<open>refresh\<close> is one more round trip after the commit. What is returned is
  the pydantic model built before the insert, with the default balance as configured, not
  the row read back. Every exception gives \<open>None\<close>.
\<close>

definition insert_new_credit :: "config \<Rightarrow> env \<Rightarrow> string \<Rightarrow> world \<Rightarrow> Credit option \<times> world" where
  "insert_new_credit cfg e user_id w =
     (let credit_model = CreditModel e user_id (CREDIT_DEFAULT_CREDIT cfg);
          work = store w;
          violated =
            (if cr_id credit_model \<in> set (map cr_id (credit_tbl work)) then Some ''credit.id''
             else if user_id \<in> set (map cr_user_id (credit_tbl work)) then Some ''credit.user_id''
             else None);
          work = work\<lparr>credit_tbl := credit_tbl work @ [write_credit cfg credit_model]\<rparr>
      in
      (case commit violated work w of
         (Inl err, w1) \<Rightarrow> (None, w1)
       | (Inr u, w1) \<Rightarrow>
           (let (f, w2) = db_call w1 in
            if f then (None, w2) else (Some credit_model, w2))))"

definition init_credit_by_user_id ::
  "config \<Rightarrow> env \<Rightarrow> string \<Rightarrow> world \<Rightarrow> (exn + Credit) \<times> world" where
  "init_credit_by_user_id cfg e user_id w =
     (case get_credit_by_user_id cfg user_id w of
        (Some credit_model, w1) \<Rightarrow> (Inr credit_model, w1)
      | (None, w1) \<Rightarrow>
          (case insert_new_credit cfg e user_id w1 of
             (Some credit_model, w2) \<Rightarrow> (Inr credit_model, w2)
           | (None, w2) \<Rightarrow> (Inl (HTTPException 500 ''credit initialize failed''), w2)))"

text \<open>
  \<open>set_credit_by_user_id\<close>: the log row is added and the balance updated inside one
  \<open>with\<close> block, with one \<open>commit\<close>; both columns keep what \<open>numeric_write\<close> makes of the new
  value. An exception of the block leaves the function.
\<close>

definition set_credit_by_user_id ::
  "config \<Rightarrow> env \<Rightarrow> SetCreditForm \<Rightarrow> world \<Rightarrow> (exn + Credit option) \<times> world" where
  "set_credit_by_user_id cfg e form_data w =
     (case init_credit_by_user_id cfg e (set_user_id form_data) w of
        (Inl err, w1) \<Rightarrow> (Inl err, w1)
      | (Inr credit_model, w1) \<Rightarrow>
          (let log =
                 CreditLogModel e (set_user_id form_data) (set_credit form_data)
                   (set_detail form_data);
               work = store w1;
               violated =
                 (if log_id log \<in> set (map log_id (credit_log_tbl work)) then Some ''credit_log.id''
                  else None);
               work = work\<lparr>credit_log_tbl := credit_log_tbl work @ [write_log cfg log]\<rparr>;
               (f, w2) = db_call w1
           in
           if f then (Inl (OperationalError ''update failed''), w2)
           else
             (let work =
                    work\<lparr>credit_tbl :=
                      map (\<lambda>c. if cr_user_id c = cr_user_id credit_model
                                then c\<lparr>cr_credit := numeric_write cfg (set_credit form_data),
                                       cr_updated_at := now e\<rparr>
                                else c)
                        (credit_tbl work)\<rparr>
              in
              (case commit violated work w2 of
                 (Inl err, w3) \<Rightarrow> (Inl err, w3)
               | (Inr u, w3) \<Rightarrow>
                   (let (r, w4) = get_credit_by_user_id cfg (set_user_id form_data) w3
                    in (Inr r, w4))))))"

text \<open>
  \<open>add_credit_by_user_id\<close>, in the two parts that follow one another in the source. First
  (lines 184 to 189) the balance is read by \<open>init\<close> and the log model built from that read
  plus the amount.
\<close>

definition add_credit_snapshot ::
  "config \<Rightarrow> env \<Rightarrow> AddCreditForm \<Rightarrow> world \<Rightarrow> (exn + CreditLog) \<times> world" where
  "add_credit_snapshot cfg e form_data w =
     (case init_credit_by_user_id cfg e (add_user_id form_data) w of
        (Inl err, w1) \<Rightarrow> (Inl err, w1)
      | (Inr credit_model, w1) \<Rightarrow>
          (Inr (CreditLogModel e (add_user_id form_data)
                  (cr_credit credit_model + add_amount form_data) (add_detail form_data)), w1))"

text \<open>
  Then (lines 190 to 200) one \<open>with\<close> block adds the log row and updates the balance
  relatively, \<open>Credit.credit + form_data.amount\<close> on the value the column keeps at that
  moment, with one \<open>commit\<close>; and the row is read again.
\<close>

definition add_credit_transaction ::
  "config \<Rightarrow> env \<Rightarrow> AddCreditForm \<Rightarrow> CreditLog \<Rightarrow> world \<Rightarrow> (exn + Credit option) \<times> world" where
  "add_credit_transaction cfg e form_data log_model w1 =
     (let work = store w1;
          violated =
            (if log_id log_model \<in> set (map log_id (credit_log_tbl work)) then Some ''credit_log.id''
             else None);
          work = work\<lparr>credit_log_tbl := credit_log_tbl work @ [write_log cfg log_model]\<rparr>;
          (f, w2) = db_call w1
      in
      if f then (Inl (OperationalError ''update failed''), w2)
      else
        (let work =
               work\<lparr>credit_tbl :=
                 map (\<lambda>c. if cr_user_id c = add_user_id form_data
                           then c\<lparr>cr_credit := numeric_write cfg (cr_credit c + add_amount form_data),
                                  cr_updated_at := now e\<rparr>
                           else c)
                   (credit_tbl work)\<rparr>
         in
         (case commit violated work w2 of
            (Inl err, w3) \<Rightarrow> (Inl err, w3)
          | (Inr u, w3) \<Rightarrow>
              (let (r, w4) = get_credit_by_user_id cfg (add_user_id form_data) w3
               in (Inr r, w4)))))"

definition add_credit_by_user_id ::
  "config \<Rightarrow> env \<Rightarrow> AddCreditForm \<Rightarrow> world \<Rightarrow> (exn + Credit option) \<times> world" where
  "add_credit_by_user_id cfg e form_data w =
     (case add_credit_snapshot cfg e form_data w of
        (Inl err, w1) \<Rightarrow> (Inl err, w1)
      | (Inr log_model, w1) \<Rightarrow> add_credit_transaction cfg e form_data log_model w1)"

text \<open>
  \<open>check_credit_by_user_id\<close>: \<open>init\<close> returns a model or raises, so \<open>credit is None\<close> never
  holds; \<open>metadata\<close> is \<open>None\<close> or a dictionary; \<open>a or b\<close> is \<open>a\<close> when \<open>a\<close> is truthy, else \<open>b\<close>.
\<close>

definition check_credit_by_user_id ::
  "config \<Rightarrow> env \<Rightarrow> string \<Rightarrow> string \<Rightarrow> pydict option \<Rightarrow> world \<Rightarrow> (exn + unit) \<times> world" where
  "check_credit_by_user_id cfg e user_id error_msg metadata w =
     (case init_credit_by_user_id cfg e user_id w of
        (Inl err, w1) \<Rightarrow> (Inl err, w1)
      | (Inr credit, w1) \<Rightarrow>
          if cr_credit credit \<le> 0 then
            (let w2 =
                   (case metadata of
                      None \<Rightarrow> w1
                    | Some md \<Rightarrow>
                        if md \<noteq> [] then
                          (let chat_id = dict_get md ''chat_id'';
                               message_id =
                                 (if truthy (dict_get md ''message_id'') then dict_get md ''message_id''
                                  else dict_get md ''id'')
                           in
                           if truthy chat_id \<and> truthy message_id
                           then upsert_message_error chat_id message_id error_msg w1
                           else w1)
                        else w1)
             in (Inl (HTTPException 403 error_msg), w2))
          else (Inr (), w1))"

subsection \<open>TradeTicketTable\<close>

text \<open>
  \<open>insert_new_ticket\<close>: the amount is a finite float, which \<open>Decimal(amount)\<close> converts
  exactly; what is returned is the pydantic model, not the row read back; every exception
  becomes an \<open>HTTPException\<close> with status 500 and the text of the exception as its detail.
\<close>

definition insert_new_ticket ::
  "config \<Rightarrow> env \<Rightarrow> string \<Rightarrow> string \<Rightarrow> rat \<Rightarrow> pydict \<Rightarrow> world \<Rightarrow>
   (exn + TradeTicket) \<times> world" where
  "insert_new_ticket cfg e ticket_id user_id amount detail w =
     (let ticket = TradeTicketModel e ticket_id user_id amount detail;
          work = store w;
          violated =
            (if tk_id ticket \<in> set (map tk_id (trade_ticket_tbl work)) then Some ''trade_ticket.id''
             else None);
          work = work\<lparr>trade_ticket_tbl := trade_ticket_tbl work @ [write_ticket cfg ticket]\<rparr>
      in
      (case commit violated work w of
         (Inl err, w1) \<Rightarrow> (Inl (HTTPException 500 (str_exn err)), w1)
       | (Inr u, w1) \<Rightarrow> (Inr ticket, w1)))"

definition get_ticket_by_id :: "config \<Rightarrow> string \<Rightarrow> world \<Rightarrow> TradeTicket option \<times> world" where
  "get_ticket_by_id cfg ticket_id w =
     (let (f, w1) = db_call w in
      if f then (None, w1)
      else
        (map_option (read_ticket cfg)
           (find (\<lambda>t. tk_id t = ticket_id) (trade_ticket_tbl (store w1))), w1))"

text \<open>
  \<open>update_credit_by_id\<close>: the detail is updated and committed, the ticket read back, and its
  amount added to the balance of its user. Nothing in the \<open>try\<close> returns a value and every
  exception is swallowed (also the \<open>AttributeError\<close> of \<open>ticket.user_id\<close> when no ticket was
  found), so the result is always \<open>None\<close>.
\<close>

definition update_credit_by_id ::
  "config \<Rightarrow> env \<Rightarrow> string \<Rightarrow> pydict \<Rightarrow> world \<Rightarrow> TradeTicket option \<times> world" where
  "update_credit_by_id cfg e ticket_id detail w =
     (let (f, w1) = db_call w in
      if f then (None, w1)
      else
        (let work = store w1;
             work =
               work\<lparr>trade_ticket_tbl :=
                 map (\<lambda>t. if tk_id t = ticket_id then t\<lparr>tk_detail := detail\<rparr> else t)
                   (trade_ticket_tbl work)\<rparr>
         in
         (case commit None work w1 of
            (Inl err, w2) \<Rightarrow> (None, w2)
          | (Inr u, w2) \<Rightarrow>
              (case get_ticket_by_id cfg ticket_id w2 of
                 (None, w3) \<Rightarrow> (None, w3)
               | (Some ticket, w3) \<Rightarrow>
                   (let (r, w4) =
                          add_credit_by_user_id cfg e
                            \<lparr>add_user_id = tk_user_id ticket, add_amount = tk_amount ticket,
                             add_detail = SetCreditFormDetail_desc ''payment success''\<rparr>
                            w3
                    in (None, w4))))))"

subsection \<open>CreditLogTable\<close>

text \<open>
  \<open>get_credit_log_by_user_id\<close>: the user's rows by \<open>created_at\<close> descending (rows of equal
  time in insertion order), as the query returns them; \<open>if offset\<close> and \<open>if limit\<close> test
  truthiness. A negative offset skips nothing and a negative limit does not limit, as in
  SQLite. A fault leaves the function as an exception.
\<close>

definition get_credit_log_by_user_id ::
  "config \<Rightarrow> string \<Rightarrow> int option \<Rightarrow> int option \<Rightarrow> world \<Rightarrow>
   (exn + CreditLog list) \<times> world" where
  "get_credit_log_by_user_id cfg user_id offset limit w =
     (let (f, w1) = db_call w in
      if f then (Inl (OperationalError ''query failed''), w1)
      else
        (let query = filter (\<lambda>l. log_user_id l = user_id) (credit_log_tbl (store w1));
             query = sort_key (\<lambda>l. - log_created_at l) query;
             query =
               (case offset of
                  None \<Rightarrow> query
                | Some n \<Rightarrow> if n \<noteq> 0 then drop (nat n) query else query);
             query =
               (case limit of
                  None \<Rightarrow> query
                | Some n \<Rightarrow> if n \<noteq> 0 then (if n < 0 then query else take (nat n) query) else query)
         in (Inr (map (read_log cfg) query), w1)))"

section \<open>Reading the state\<close>

text \<open>
  The balance of a user as \<open>init_credit_by_user_id\<close> gives it when nothing fails: the
  credit of the user's row as a query returns it, or the default that a first row is
  created with.
\<close>

definition balance :: "config \<Rightarrow> db \<Rightarrow> string \<Rightarrow> rat" where
  "balance cfg d user_id =
     (case find (\<lambda>c. cr_user_id c = user_id) (credit_tbl d) of
        None \<Rightarrow> CREDIT_DEFAULT_CREDIT cfg
      | Some c \<Rightarrow> numeric_read cfg (cr_credit c))"

text \<open>
  The value the credit column keeps for a user: that of the user's row, or what a first
  row would keep of the default.
\<close>

definition stored_balance :: "config \<Rightarrow> db \<Rightarrow> string \<Rightarrow> rat" where
  "stored_balance cfg d user_id =
     (case find (\<lambda>c. cr_user_id c = user_id) (credit_tbl d) of
        None \<Rightarrow> numeric_write cfg (CREDIT_DEFAULT_CREDIT cfg)
      | Some c \<Rightarrow> cr_credit c)"

text \<open>The column holds \<open>x\<close>: written and read back, \<open>x\<close> is \<open>x\<close>.\<close>

definition kept :: "config \<Rightarrow> rat \<Rightarrow> bool" where
  "kept cfg x = (numeric_write cfg x = x \<and> numeric_read cfg x = x)"

section \<open>Example data\<close>

text \<open>Rounding to twelve fractional digits, to the nearest, a tie upwards.\<close>

definition quantize12 :: "rat \<Rightarrow> rat" where
  "quantize12 x = of_int \<lfloor>x * 1000000000000 + 1 / 2\<rfloor> / 1000000000000"

text \<open>
  A configuration whose database rounds on reading, one whose database rounds on writing,
  an empty state and two environments, for the concrete runs below.
\<close>

definition example_config :: config where
  "example_config =
     \<lparr>EZFP_PID = PStr ''1001'', EZFP_KEY = ''secret'', EZFP_ENDPOINT = ''https://pay.example/'',
      EZFP_CALLBACK_HOST = ''https://ui.example/'', WEBUI_NAME = ''Open WebUI'',
      CREDIT_DEFAULT_CREDIT = 0, numeric_write = (\<lambda>x. x), numeric_read = quantize12\<rparr>"

definition example_config_w :: config where
  "example_config_w = example_config\<lparr>numeric_write := quantize12, numeric_read := (\<lambda>x. x)\<rparr>"

definition empty_world :: world where
  "empty_world =
     \<lparr>store = \<lparr>credit_tbl = [], credit_log_tbl = [], trade_ticket_tbl = []\<rparr>,
      faults = [], chat_errors = []\<rparr>"

definition env1 :: env where
  "env1 = \<lparr>now = 1700000000, credit_uuid = ''c1'', log_uuid = ''l1''\<rparr>"

definition env2 :: env where
  "env2 = \<lparr>now = 1700000060, credit_uuid = ''c2'', log_uuid = ''l2''\<rparr>"

text \<open>The state after the ticket \<open>t1\<close> of user \<open>u1\<close> over 10.00 was created in the empty state.\<close>

definition ticket_world :: world where
  "ticket_world = snd (insert_new_ticket example_config env1 ''t1'' ''u1'' 10 [] empty_world)"

text \<open>
  A state with three balances (5/2, the smallest positive amount of twelve fractional
  digits, and 0), three log rows and one ticket.
\<close>

definition funded_world :: world where
  "funded_world =
     \<lparr>store =
        \<lparr>credit_tbl =
           [\<lparr>cr_id = ''ca'', cr_user_id = ''u2'', cr_credit = 5 / 2,
             cr_updated_at = 1699990200, cr_created_at = 1699990000\<rparr>,
            \<lparr>cr_id = ''cb'', cr_user_id = ''u3'', cr_credit = 1 / 1000000000000,
             cr_updated_at = 1699990000, cr_created_at = 1699990000\<rparr>,
            \<lparr>cr_id = ''cc'', cr_user_id = ''u4'', cr_credit = 0,
             cr_updated_at = 1699990000, cr_created_at = 1699990000\<rparr>],
         credit_log_tbl =
           [\<lparr>log_id = ''la'', log_user_id = ''u2'', log_credit = 1,
             log_detail = SetCreditFormDetail_desc ''first'', log_created_at = 1699990100\<rparr>,
            \<lparr>log_id = ''lb'', log_user_id = ''u3'', log_credit = 1 / 1000000000000,
             log_detail = SetCreditFormDetail_desc ''other'', log_created_at = 1699990150\<rparr>,
            \<lparr>log_id = ''lc'', log_user_id = ''u2'', log_credit = 5 / 2,
             log_detail = SetCreditFormDetail_desc ''second'', log_created_at = 1699990200\<rparr>],
         trade_ticket_tbl =
           [\<lparr>tk_id = ''t2'', tk_user_id = ''u2'', tk_amount = 3, tk_detail = [],
             tk_created_at = 1699990300\<rparr>]\<rparr>,
      faults = [], chat_errors = []\<rparr>"









section \<open>Device classification\<close>

lemma find_from_sublist: "0 \<le> i \<Longrightarrow> (find_from sub s i \<noteq> - 1) = sublist sub s"
proof (induction s arbitrary: i)
  case Nil
  then show ?case by auto
next
  case (Cons c cs)
  then show ?case
    by (auto simp: sublist_Cons_right)
qed

lemma find_str_sublist: "(find_str s sub \<noteq> - 1) = sublist sub s"
  by (simp add: find_str_def find_from_sublist)

text \<open>
  C6. \<open>get_device_from_ua\<close> lowercases the user agent and returns the first match in the
  order wechat (the substring "micromessenger"), qq, alipay, mobile ("android" or "iphone"),
  else pc, where a match is an occurrence as a contiguous substring. So
  "Mozilla Android QQ/1.0" is "qq", "Mozilla iPhone" is "mobile" and the empty string is
  "pc".
\<close>

theorem get_device_from_ua_priority:
  "get_device_from_ua ua =
     (if sublist ''micromessenger'' (lower ua) then ''wechat''
      else if sublist ''qq'' (lower ua) then ''qq''
      else if sublist ''alipay'' (lower ua) then ''alipay''
      else if sublist ''android'' (lower ua) \<or> sublist ''iphone'' (lower ua) then ''mobile''
      else ''pc'')
   \<and> get_device_from_ua ''Mozilla Android QQ/1.0'' = ''qq''
   \<and> get_device_from_ua ''Mozilla iPhone'' = ''mobile''
   \<and> get_device_from_ua [] = ''pc''"
proof -
  have general: "get_device_from_ua ua =
     (if sublist ''micromessenger'' (lower ua) then ''wechat''
      else if sublist ''qq'' (lower ua) then ''qq''
      else if sublist ''alipay'' (lower ua) then ''alipay''
      else if sublist ''android'' (lower ua) \<or> sublist ''iphone'' (lower ua) then ''mobile''
      else ''pc'')"
    unfolding get_device_from_ua_def Let_def find_str_sublist by (rule refl)
  have qq: "get_device_from_ua ''Mozilla Android QQ/1.0'' = ''qq''" by code_simp
  have mobile: "get_device_from_ua ''Mozilla iPhone'' = ''mobile''" by code_simp
  have pc: "get_device_from_ua [] = ''pc''" by code_simp
  from general qq mobile pc show ?thesis by (intro conjI)
qed

text \<open>A user agent that matches three of the classes is the first of them.\<close>

theorem get_device_from_ua_priority_witness:
  "get_device_from_ua ''Mozilla/5.0 (Linux; Android 13) QQ/9.0 MicroMessenger/8.0'' = ''wechat''"
proof -
  have "sublist ''micromessenger''
          (lower ''Mozilla/5.0 (Linux; Android 13) QQ/9.0 MicroMessenger/8.0'')"
    by code_simp
  with get_device_from_ua_priority [of "''Mozilla/5.0 (Linux; Android 13) QQ/9.0 MicroMessenger/8.0''"]
  show ?thesis by simp
qed

section \<open>Signatures\<close>

lemma sign_params_update_sign:
  "k \<in> {''sign'', ''sign_type''} \<Longrightarrow> sign_params (AList.update k v p) = sign_params p"
  by (induction p) (auto simp: sign_params_def)

lemma sign_params_update_other:
  "k \<notin> {''sign'', ''sign_type''} \<Longrightarrow> k' \<in> {''sign'', ''sign_type''} \<Longrightarrow>
   sign_params (AList.update k v (AList.update k' v' p)) = sign_params (AList.update k v p)"
proof (induction p)
  case Nil
  then show ?case by (auto simp: sign_params_def)
next
  case (Cons a p)
  obtain a1 a2 where a: "a = (a1, a2)" by (cases a)
  from Cons sign_params_update_sign[of k' v' p] show ?case
    by (auto simp: sign_params_def a)
qed

text \<open>Signing does not change the text that is signed: the two signature fields are left out of it.\<close>

lemma plain_text_sign: "plain_text cfg (sign md5 cfg p) = plain_text cfg p"
  by (simp add: plain_text_def sign_def setitem_def sign_params_update_sign)

lemma plain_text_setitem_sign:
  "k \<notin> {''sign'', ''sign_type''} \<Longrightarrow>
   plain_text cfg (setitem (sign md5 cfg p) k v) = plain_text cfg (setitem p k v)"
  by (simp add: plain_text_def sign_def setitem_def sign_params_update_other)

lemma map_of_sign:
  "map_of (sign md5 cfg p) k =
     (if k = ''sign_type'' then Some (PStr ''MD5'')
      else if k = ''sign'' then Some (PStr (md5 (plain_text cfg p)))
      else map_of p k)"
  by (simp add: sign_def setitem_def update_conv)

text \<open>What \<open>verify\<close> does on every payload: the three subscripts, in the order they are read.\<close>

lemma verify_cases:
  "verify md5 cfg payload =
     (case map_of payload ''pid'' of
        None \<Rightarrow> Inl (KeyError ''pid'')
      | Some pid \<Rightarrow>
          if \<not> py_eq pid (EZFP_PID cfg) then Inr False
          else
            (case map_of payload ''sign'' of
               None \<Rightarrow> Inl (KeyError ''sign'')
             | Some s \<Rightarrow>
                 if \<not> py_eq s (PStr (md5 (plain_text cfg payload))) then Inr False
                 else
                   (case map_of payload ''sign_type'' of
                      None \<Rightarrow> Inl (KeyError ''sign_type'')
                    | Some t \<Rightarrow> Inr (py_eq t (PStr ''MD5'')))))"
  by (simp add: verify_def getitem_def map_of_sign Let_def split: option.splits)

text \<open>
  C3, as the code has it. For a payload whose \<open>pid\<close> equals the configured merchant id,
  \<open>verify\<close> of the signed payload is true. After one field other than \<open>sign\<close> and
  \<open>sign_type\<close> is set to a new value, \<open>verify\<close> is true exactly when the \<open>pid\<close> still equals
  the merchant id and the digest of the text signed for the changed payload equals the
  digest of the text signed for the original: a change that keeps the \<open>pid\<close> is rejected
  exactly when it changes that digest. The text holds the fields with a truthy value only.
\<close>

theorem sign_verify_roundtrip:
  assumes "map_of p ''pid'' = Some pid" and "py_eq pid (EZFP_PID cfg)"
    and "k \<notin> {''sign'', ''sign_type''}"
  shows "verify md5 cfg (sign md5 cfg p) = Inr True \<and>
         verify md5 cfg (setitem (sign md5 cfg p) k v) =
           Inr (py_eq (if k = ''pid'' then v else pid) (EZFP_PID cfg) \<and>
                md5 (plain_text cfg (setitem p k v)) = md5 (plain_text cfg p))"
proof
  show "verify md5 cfg (sign md5 cfg p) = Inr True"
    using assms(1,2) by (simp add: verify_cases map_of_sign plain_text_sign)
  have m: "map_of (setitem (sign md5 cfg p) k v) k' =
             (if k' = k then Some v else map_of (sign md5 cfg p) k')" for k'
    by (simp add: setitem_def update_conv)
  show "verify md5 cfg (setitem (sign md5 cfg p) k v) =
           Inr (py_eq (if k = ''pid'' then v else pid) (EZFP_PID cfg) \<and>
                md5 (plain_text cfg (setitem p k v)) = md5 (plain_text cfg p))"
    using assms by (auto simp add: verify_cases m map_of_sign plain_text_setitem_sign)
qed

text \<open>
  A run of the theorem, with the identity as the digest (no two texts share a digest): the
  signed payload verifies, and it no longer does once \<open>money\<close> is changed.
\<close>

theorem sign_verify_roundtrip_witness:
  "verify id example_config
     (sign id example_config [(''pid'', PStr ''1001''), (''money'', PStr ''1.00'')]) = Inr True \<and>
   verify id example_config
     (setitem (sign id example_config [(''pid'', PStr ''1001''), (''money'', PStr ''1.00'')])
        ''money'' (PStr ''9.00'')) = Inr False"
proof -
  have h1: "map_of [(''pid'', PStr ''1001''), (''money'', PStr ''1.00'')] ''pid'' = Some (PStr ''1001'')"
    by simp
  have h2: "py_eq (PStr ''1001'') (EZFP_PID example_config)"
    by (simp add: example_config_def)
  have h3: "''money'' \<notin> {''sign'', ''sign_type''}"
    by simp
  have ne: "(id (plain_text example_config
               (setitem [(''pid'', PStr ''1001''), (''money'', PStr ''1.00'')] ''money''
                  (PStr ''9.00''))) =
             id (plain_text example_config [(''pid'', PStr ''1001''), (''money'', PStr ''1.00'')]))
            = False"
    by code_simp
  from sign_verify_roundtrip [OF h1 h2 h3, of id "PStr ''9.00''"] h2 show ?thesis
    by (simp only: ne) simp
qed

text \<open>
  C3 as stated fails: a change that leaves the signed text as it was is not noticed. The
  field \<open>remark\<close> of a signed payload is the empty string; changing it to \<open>None\<close> (both
  falsy, so both left out of the text) keeps \<open>verify\<close> true. With string values only, the
  text is ambiguous when keys or values contain \<open>=\<close> and \<open>&\<close>: changing the field \<open>a\<close>
  from \<open>&a=a=\<close> to \<open>a=&a=\<close> beside a field \<open>a=&a\<close> gives the same text. Both hold for
  any digest; the identity is used here.
\<close>

theorem sign_verify_mutation_counterexample:
  "verify id example_config
     (setitem (sign id example_config [(''pid'', PStr ''1001''), (''remark'', PStr [])])
        ''remark'' PNone) = Inr True \<and>
   dict_get (sign id example_config [(''pid'', PStr ''1001''), (''remark'', PStr [])]) ''remark''
     = PStr [] \<and>
   verify id example_config
     (setitem (sign id example_config
                 [(''pid'', PStr ''1001''), (''a'', PStr ''&a=a=''), (''a=&a'', PStr ''a=&a='')])
        ''a'' (PStr ''a=&a='')) = Inr True"
  by code_simp

text \<open>
  C4, as the code has it. On a payload that has the keys \<open>pid\<close>, \<open>sign\<close> and \<open>sign_type\<close>,
  \<open>verify\<close> raises nothing and returns whether the \<open>pid\<close> equals the merchant id, the
  \<open>sign\<close> equals the signature computed again and the \<open>sign_type\<close> equals "MD5": false on
  any mismatch. It also returns false, whatever else is missing, when the \<open>pid\<close> is there
  and differs, and when the \<open>pid\<close> matches and the \<open>sign\<close> is there and differs. A key
  that is read and missing is a \<open>KeyError\<close>: \<open>pid\<close> always, \<open>sign\<close> when the \<open>pid\<close> matches,
  \<open>sign_type\<close> when \<open>pid\<close> and \<open>sign\<close> match.
\<close>

theorem verify_by_keys:
  "(map_of payload ''pid'' = Some pid \<and> map_of payload ''sign'' = Some s \<and>
    map_of payload ''sign_type'' = Some t \<longrightarrow>
      verify md5 cfg payload =
        Inr (py_eq pid (EZFP_PID cfg) \<and> py_eq s (PStr (md5 (plain_text cfg payload))) \<and>
             py_eq t (PStr ''MD5''))) \<and>
   (map_of payload ''pid'' = Some pid \<and> \<not> py_eq pid (EZFP_PID cfg) \<longrightarrow>
      verify md5 cfg payload = Inr False) \<and>
   (map_of payload ''pid'' = Some pid \<and> py_eq pid (EZFP_PID cfg) \<and>
    map_of payload ''sign'' = Some s \<and> \<not> py_eq s (PStr (md5 (plain_text cfg payload))) \<longrightarrow>
      verify md5 cfg payload = Inr False) \<and>
   (map_of payload ''pid'' = None \<longrightarrow> verify md5 cfg payload = Inl (KeyError ''pid'')) \<and>
   (map_of payload ''pid'' = Some pid \<and> py_eq pid (EZFP_PID cfg) \<and>
    map_of payload ''sign'' = None \<longrightarrow>
      verify md5 cfg payload = Inl (KeyError ''sign'')) \<and>
   (map_of payload ''pid'' = Some pid \<and> py_eq pid (EZFP_PID cfg) \<and>
    map_of payload ''sign'' = Some s \<and> py_eq s (PStr (md5 (plain_text cfg payload))) \<and>
    map_of payload ''sign_type'' = None \<longrightarrow>
      verify md5 cfg payload = Inl (KeyError ''sign_type''))"
  by (simp add: verify_cases)

text \<open>
  A payload with all three keys and a forged signature is answered false; one with a
  foreign \<open>pid\<close> and nothing else is answered false as well.
\<close>

theorem verify_by_keys_witness:
  "verify id example_config
     [(''pid'', PStr ''1001''), (''money'', PStr ''1.00''), (''sign'', PStr ''forged''),
      (''sign_type'', PStr ''MD5'')] = Inr False \<and>
   verify id example_config [(''pid'', PStr ''2002'')] = Inr False"
proof -
  let ?p = "[(''pid'', PStr ''1001''), (''money'', PStr ''1.00''), (''sign'', PStr ''forged''),
      (''sign_type'', PStr ''MD5'')]"
  have keys: "map_of ?p ''pid'' = Some (PStr ''1001'') \<and> map_of ?p ''sign'' = Some (PStr ''forged'') \<and>
    map_of ?p ''sign_type'' = Some (PStr ''MD5'')"
    by simp
  have forged: "\<not> py_eq (PStr ''forged'') (PStr (id (plain_text example_config ?p)))"
    by code_simp
  have foreign: "map_of [(''pid'', PStr ''2002'')] ''pid'' = Some (PStr ''2002'') \<and>
    \<not> py_eq (PStr ''2002'') (EZFP_PID example_config)"
    by (simp add: example_config_def)
  from verify_by_keys [of ?p "PStr ''1001''" "PStr ''forged''" "PStr ''MD5''" id example_config,
      THEN conjunct1, THEN mp, OF keys] forged
  have "verify id example_config ?p = Inr False"
    by simp
  moreover
  from verify_by_keys [of "[(''pid'', PStr ''2002'')]" "PStr ''2002''" _ _ id example_config,
      THEN conjunct2, THEN conjunct1, THEN mp, OF foreign]
  have "verify id example_config [(''pid'', PStr ''2002'')] = Inr False" .
  ultimately show ?thesis by simp
qed

text \<open>
  C4 as stated fails: a missing field is a \<open>KeyError\<close>, not the answer false. A payload
  without \<open>pid\<close> raises; with the right \<open>pid\<close> and no \<open>sign\<close> it raises; with the right
  \<open>pid\<close> and \<open>sign\<close> and no \<open>sign_type\<close> it raises.
\<close>

theorem verify_missing_field_counterexample:
  "verify id example_config [(''money'', PStr ''1.00'')] = Inl (KeyError ''pid'') \<and>
   verify id example_config [(''pid'', PStr ''1001''), (''money'', PStr ''1.00'')] =
     Inl (KeyError ''sign'') \<and>
   verify id example_config
     [(''pid'', PStr ''1001''), (''money'', PStr ''1.00''),
      (''sign'', PStr ''money=1.00&pid=1001secret'')] = Inl (KeyError ''sign_type'')"
  by code_simp

section \<open>Trade creation\<close>

text \<open>
  C7. When the call reaches the transport step (the merchant id is a number) and the post
  of the request raises \<open>err\<close>, or the post returns and parsing the response raises \<open>err\<close>,
  \<open>create_trade\<close> returns the dictionary with \<open>code\<close> -1 and \<open>msg\<close> the text of \<open>err\<close>; it
  does not raise.
\<close>

theorem create_trade_transport_failure:
  assumes "py_int (EZFP_PID cfg) = Inr pid"
    and "trade_request md5 cfg fmt2f pid pay_type out_trade_no amount client_ip ua = (url, payload)"
    and "post url payload = Inl err \<or> (\<exists>resp. post url payload = Inr resp \<and> resp_json resp = Inl err)"
  shows "create_trade md5 cfg py_int fmt2f post resp_json pay_type out_trade_no amount client_ip ua =
           Inr [(''code'', PInt (- 1)), (''msg'', PStr (str_exn err))]"
  using assms by (auto simp: create_trade_def)

theorem create_trade_transport_failure_witness:
  "create_trade id example_config (\<lambda>v. Inr 1001) (\<lambda>a :: rat. ''10.00'')
     (\<lambda>url params. Inl (TransportError ''connection refused'') :: exn + unit)
     (\<lambda>resp. Inr []) ''alipay'' ''t1'' 10 ''203.0.113.7'' ''Mozilla iPhone'' =
   Inr [(''code'', PInt (- 1)), (''msg'', PStr ''connection refused'')] \<and>
   create_trade id example_config (\<lambda>v. Inr 1001) (\<lambda>a :: rat. ''10.00'')
     (\<lambda>url params. Inr ())
     (\<lambda>resp. Inl (ValueError ''Expecting value'')) ''alipay'' ''t1'' 10 ''203.0.113.7''
     ''Mozilla iPhone'' =
   Inr [(''code'', PInt (- 1)), (''msg'', PStr ''Expecting value'')]"
  using
    create_trade_transport_failure [OF _ surjective_pairing, of "\<lambda>v. Inr 1001" example_config 1001
      "\<lambda>url params. Inl (TransportError ''connection refused'') :: exn + unit"
      id "\<lambda>a :: rat. ''10.00''" "''alipay''" "''t1''" 10 "''203.0.113.7''" "''Mozilla iPhone''"
      "TransportError ''connection refused''" "\<lambda>resp. Inr []"]
    create_trade_transport_failure [OF _ surjective_pairing, of "\<lambda>v. Inr 1001" example_config 1001
      "\<lambda>url params. Inr ()"
      id "\<lambda>a :: rat. ''10.00''" "''alipay''" "''t1''" 10 "''203.0.113.7''" "''Mozilla iPhone''"
      "ValueError ''Expecting value''" "\<lambda>resp. Inl (ValueError ''Expecting value'')"]
  by simp

section \<open>The database primitives\<close>

lemma db_call_cases:
  "db_call w = (f, w1) \<Longrightarrow> store w1 = store w \<and> chat_errors w1 = chat_errors w"
  by (auto simp: db_call_def split: list.splits)

lemma db_call_no_fault: "faults w = [] \<Longrightarrow> db_call w = (False, w)"
  by (simp add: db_call_def)

lemma commit_Inl: "commit v work w = (Inl err, w1) \<Longrightarrow> store w1 = store w"
  by (auto simp: commit_def Let_def db_call_def split: list.splits if_splits option.splits)

lemma commit_Inr: "commit v work w = (Inr x, w1) \<Longrightarrow> store w1 = work \<and> v = None"
  by (auto simp: commit_def Let_def db_call_def split: list.splits if_splits option.splits)

lemma commit_no_fault:
  "faults w = [] \<Longrightarrow> commit None work w = (Inr (), w\<lparr>store := work\<rparr>)"
  by (simp add: commit_def db_call_no_fault)

lemma get_credit_cases:
  "get_credit_by_user_id cfg u w = (r, w1) \<Longrightarrow>
   store w1 = store w \<and>
   (r = None \<or>
    r = map_option (read_credit cfg) (find (\<lambda>c. cr_user_id c = u) (credit_tbl (store w))))"
  by (auto simp: get_credit_by_user_id_def db_call_def split: list.splits if_splits)

lemma get_credit_no_fault:
  "faults w = [] \<Longrightarrow>
   get_credit_by_user_id cfg u w =
     (map_option (read_credit cfg) (find (\<lambda>c. cr_user_id c = u) (credit_tbl (store w))), w)"
  by (simp add: get_credit_by_user_id_def db_call_no_fault)

lemma insert_new_credit_cases:
  assumes "insert_new_credit cfg e u w = (r, w1)"
  shows "credit_log_tbl (store w1) = credit_log_tbl (store w) \<and>
         trade_ticket_tbl (store w1) = trade_ticket_tbl (store w) \<and>
         (credit_tbl (store w1) = credit_tbl (store w) \<and> r = None \<or>
          credit_tbl (store w1) =
            credit_tbl (store w) @ [write_credit cfg (CreditModel e u (CREDIT_DEFAULT_CREDIT cfg))] \<and>
          u \<notin> set (map cr_user_id (credit_tbl (store w))) \<and>
          (r = None \<or> r = Some (CreditModel e u (CREDIT_DEFAULT_CREDIT cfg))))"
proof -
  let ?m = "CreditModel e u (CREDIT_DEFAULT_CREDIT cfg)"
  let ?v = "if cr_id ?m \<in> set (map cr_id (credit_tbl (store w))) then Some ''credit.id''
            else if u \<in> set (map cr_user_id (credit_tbl (store w))) then Some ''credit.user_id''
            else None"
  let ?work = "(store w)\<lparr>credit_tbl := credit_tbl (store w) @ [write_credit cfg ?m]\<rparr>"
  obtain a w2 where c: "commit ?v ?work w = (a, w2)" by (cases "commit ?v ?work w")
  show ?thesis
  proof (cases a)
    case (Inl err)
    with c assms commit_Inl[OF c[unfolded Inl]] show ?thesis
      by (auto simp: insert_new_credit_def Let_def)
  next
    case (Inr x)
    from commit_Inr[OF c[unfolded Inr]] have st: "store w2 = ?work"
      and nv: "u \<notin> set (map cr_user_id (credit_tbl (store w)))"
      by (auto split: if_splits)
    obtain f w3 where dc: "db_call w2 = (f, w3)" by (cases "db_call w2")
    from db_call_cases[OF dc] st have "store w3 = ?work"
      by simp
    with c Inr assms dc nv show ?thesis
      by (auto simp: insert_new_credit_def Let_def split: if_splits)
  qed
qed

lemma find_append_new:
  "find P xs = None \<Longrightarrow> P x \<Longrightarrow> find P (xs @ [x]) = Some x"
  by (induction xs) (auto split: if_splits)

lemma find_append_other: "\<not> P x \<Longrightarrow> find P (xs @ [x]) = find P xs"
  by (induction xs) auto

lemma find_None_user:
  "(find (\<lambda>c. cr_user_id c = u) T = None) = (u \<notin> set (map cr_user_id T))"
  by (auto simp: find_None_iff)

lemma find_user_Some:
  "find (\<lambda>c. cr_user_id c = u) T = Some c \<Longrightarrow> cr_user_id c = u \<and> u \<in> set (map cr_user_id T)"
  by (auto simp: find_Some_iff)

lemma find_map_preserve:
  "(\<And>x. P (f x) = P x) \<Longrightarrow> find P (map f xs) = map_option f (find P xs)"
  by (induction xs) auto

lemma balance_find:
  "find (\<lambda>c. cr_user_id c = u) (credit_tbl d) = Some c \<Longrightarrow>
   balance cfg d u = numeric_read cfg (cr_credit c) \<and> stored_balance cfg d u = cr_credit c"
  by (simp add: balance_def stored_balance_def)

text \<open>
  What \<open>init_credit_by_user_id\<close> leaves behind, whatever the faults: the log and the tickets
  as they were, the credit table as it was or with the first row of the user. When it
  returns, the model has the balance as read and the user has a row, which keeps the
  stored balance.
\<close>

lemma init_credit_cases:
  assumes "init_credit_by_user_id cfg e u w = (r, w1)"
  shows "credit_log_tbl (store w1) = credit_log_tbl (store w) \<and>
         trade_ticket_tbl (store w1) = trade_ticket_tbl (store w) \<and>
         (credit_tbl (store w1) = credit_tbl (store w) \<or>
          credit_tbl (store w1) =
            credit_tbl (store w) @ [write_credit cfg (CreditModel e u (CREDIT_DEFAULT_CREDIT cfg))] \<and>
          u \<notin> set (map cr_user_id (credit_tbl (store w)))) \<and>
         (\<forall>c. r = Inr c \<longrightarrow>
            cr_user_id c = u \<and> cr_credit c = balance cfg (store w) u \<and>
            (\<exists>c1. find (\<lambda>c. cr_user_id c = u) (credit_tbl (store w1)) = Some c1 \<and>
                  cr_credit c1 = stored_balance cfg (store w) u))"
proof -
  let ?m = "CreditModel e u (CREDIT_DEFAULT_CREDIT cfg)"
  obtain g w0 where g: "get_credit_by_user_id cfg u w = (g, w0)"
    by (cases "get_credit_by_user_id cfg u w")
  note gc = get_credit_cases[OF g]
  show ?thesis
  proof (cases g)
    case (Some c)
    from g Some assms have r: "r = Inr c" "w1 = w0"
      by (auto simp: init_credit_by_user_id_def)
    from gc Some have st: "store w0 = store w"
      and m: "map_option (read_credit cfg) (find (\<lambda>c. cr_user_id c = u) (credit_tbl (store w))) = Some c"
      by auto
    from m obtain c1 where f: "find (\<lambda>c. cr_user_id c = u) (credit_tbl (store w)) = Some c1"
      and c: "c = read_credit cfg c1"
      by (cases "find (\<lambda>c. cr_user_id c = u) (credit_tbl (store w))") auto
    from find_user_Some[OF f] have "cr_user_id c1 = u" by simp
    with r f c st show ?thesis
      by (simp add: balance_def stored_balance_def read_credit_def)
  next
    case None
    obtain i w2 where i: "insert_new_credit cfg e u w0 = (i, w2)"
      by (cases "insert_new_credit cfg e u w0")
    note ic = insert_new_credit_cases[OF i]
    have row: "cr_user_id (write_credit cfg ?m) = u" "cr_user_id ?m = u"
      "cr_credit ?m = CREDIT_DEFAULT_CREDIT cfg"
      "cr_credit (write_credit cfg ?m) = numeric_write cfg (CREDIT_DEFAULT_CREDIT cfg)"
      by (simp_all add: CreditModel_def write_credit_def)
    from gc have st: "store w0 = store w" by simp
    from g None assms i have r: "w1 = w2"
      "r = (case i of None \<Rightarrow> Inl (HTTPException 500 ''credit initialize failed'') | Some c \<Rightarrow> Inr c)"
      by (auto simp: init_credit_by_user_id_def split: option.splits)
    from ic st consider
      (same) "credit_tbl (store w2) = credit_tbl (store w)" "i = None"
      | (new) "credit_tbl (store w2) = credit_tbl (store w) @ [write_credit cfg ?m]"
          "u \<notin> set (map cr_user_id (credit_tbl (store w)))"
          "i = None \<or> i = Some ?m"
      by auto
    then show ?thesis
    proof cases
      case same
      with ic st r show ?thesis by simp
    next
      case new
      from new(2) have fn: "find (\<lambda>c. cr_user_id c = u) (credit_tbl (store w)) = None"
        by (simp add: find_None_user)
      from fn have "find (\<lambda>c. cr_user_id c = u) (credit_tbl (store w) @ [write_credit cfg ?m])
          = Some (write_credit cfg ?m)"
        by (rule find_append_new) (simp add: row)
      with new ic st r fn show ?thesis
        by (auto simp: balance_def stored_balance_def row)
    qed
  qed
qed

section \<open>Setting and adding a balance\<close>

lemma set_credit_cases:
  assumes run: "set_credit_by_user_id cfg e form w = (res, w')"
  shows "(case res of
            Inr r \<Rightarrow>
              credit_log_tbl (store w') =
                credit_log_tbl (store w) @
                  [write_log cfg
                     (CreditLogModel e (set_user_id form) (set_credit form) (set_detail form))] \<and>
              (\<exists>c. find (\<lambda>c. cr_user_id c = set_user_id form) (credit_tbl (store w')) = Some c \<and>
                   cr_credit c = numeric_write cfg (set_credit form))
          | Inl err \<Rightarrow>
              credit_log_tbl (store w') = credit_log_tbl (store w) \<and>
              (credit_tbl (store w') = credit_tbl (store w) \<or>
               credit_tbl (store w') =
                 credit_tbl (store w) @
                   [write_credit cfg (CreditModel e (set_user_id form) (CREDIT_DEFAULT_CREDIT cfg))] \<and>
               set_user_id form \<notin> set (map cr_user_id (credit_tbl (store w)))))"
proof -
  let ?u = "set_user_id form"
  obtain ri w1 where i: "init_credit_by_user_id cfg e ?u w = (ri, w1)"
    by (cases "init_credit_by_user_id cfg e ?u w")
  note ic = init_credit_cases[OF i]
  show ?thesis
  proof (cases ri)
    case (Inl err)
    with i run have "res = Inl err" "w' = w1"
      by (auto simp: set_credit_by_user_id_def)
    with ic show ?thesis by auto
  next
    case (Inr cm)
    from ic Inr obtain c1 where fcm: "find (\<lambda>c. cr_user_id c = ?u) (credit_tbl (store w1)) = Some c1"
      and ucm: "cr_user_id cm = ?u"
      by auto
    from find_user_Some[OF fcm] have uc1: "cr_user_id c1 = ?u" by simp
    obtain f w2 where d: "db_call w1 = (f, w2)" by (cases "db_call w1")
    from db_call_cases[OF d] have s2: "store w2 = store w1" by simp
    show ?thesis
    proof (cases f)
      case True
      with i Inr d run have "res = Inl (OperationalError ''update failed'')" "w' = w2"
        by (auto simp: set_credit_by_user_id_def Let_def)
      with ic s2 show ?thesis by auto
    next
      case False
      let ?log = "CreditLogModel e ?u (set_credit form) (set_detail form)"
      let ?v = "if log_id ?log \<in> set (map log_id (credit_log_tbl (store w1)))
                then Some ''credit_log.id'' else None"
      let ?upd = "\<lambda>c. if cr_user_id c = cr_user_id cm
                      then c\<lparr>cr_credit := numeric_write cfg (set_credit form),
                             cr_updated_at := now e\<rparr> else c"
      let ?work = "(store w1)\<lparr>credit_log_tbl := credit_log_tbl (store w1) @ [write_log cfg ?log],
                      credit_tbl := map ?upd (credit_tbl (store w1))\<rparr>"
      obtain a w3 where c: "commit ?v ?work w2 = (a, w3)" by (cases "commit ?v ?work w2")
      show ?thesis
      proof (cases a)
        case (Inl err)
        with i Inr d False c run have "res = Inl err" "w' = w3"
          by (auto simp: set_credit_by_user_id_def Let_def)
        with commit_Inl[OF c[unfolded Inl]] ic s2 show ?thesis by auto
      next
        case (Inr x)
        obtain r w4 where g: "get_credit_by_user_id cfg ?u w3 = (r, w4)"
          by (cases "get_credit_by_user_id cfg ?u w3")
        from \<open>ri = Inr cm\<close> i d False c Inr g run have res: "res = Inr r" "w' = w4"
          by (auto simp: set_credit_by_user_id_def Let_def)
        from commit_Inr[OF c[unfolded Inr]] get_credit_cases[OF g]
        have s4: "store w4 = ?work" by simp
        have "find (\<lambda>c. cr_user_id c = ?u) (map ?upd (credit_tbl (store w1))) = Some (?upd c1)"
          by (subst find_map_preserve) (auto simp: fcm)
        with s4 res ic ucm uc1 show ?thesis
          by auto
      qed
    qed
  qed
qed

lemma add_credit_snapshot_cases:
  assumes run: "add_credit_snapshot cfg e form w = (res, w1)"
  shows "credit_log_tbl (store w1) = credit_log_tbl (store w) \<and>
         trade_ticket_tbl (store w1) = trade_ticket_tbl (store w) \<and>
         (credit_tbl (store w1) = credit_tbl (store w) \<or>
          credit_tbl (store w1) =
            credit_tbl (store w) @
              [write_credit cfg (CreditModel e (add_user_id form) (CREDIT_DEFAULT_CREDIT cfg))] \<and>
          add_user_id form \<notin> set (map cr_user_id (credit_tbl (store w)))) \<and>
         (\<forall>lm. res = Inr lm \<longrightarrow>
            lm = CreditLogModel e (add_user_id form)
                   (balance cfg (store w) (add_user_id form) + add_amount form) (add_detail form) \<and>
            (\<exists>c1. find (\<lambda>c. cr_user_id c = add_user_id form) (credit_tbl (store w1)) = Some c1 \<and>
                  cr_credit c1 = stored_balance cfg (store w) (add_user_id form)))"
proof -
  obtain ri w0 where i: "init_credit_by_user_id cfg e (add_user_id form) w = (ri, w0)"
    by (cases "init_credit_by_user_id cfg e (add_user_id form) w")
  from i run have w: "w1 = w0"
    and res: "res = (case ri of Inl err \<Rightarrow> Inl err
                | Inr cm \<Rightarrow> Inr (CreditLogModel e (add_user_id form)
                    (cr_credit cm + add_amount form) (add_detail form)))"
    by (auto simp: add_credit_snapshot_def split: sum.splits)
  from init_credit_cases[OF i] w res show ?thesis
    by (cases ri) auto
qed

lemma add_credit_transaction_cases:
  assumes run: "add_credit_transaction cfg e form lm w1 = (res, w')"
  shows "(case res of
            Inr r \<Rightarrow>
              store w' =
                (store w1)\<lparr>credit_log_tbl := credit_log_tbl (store w1) @ [write_log cfg lm],
                  credit_tbl :=
                    map (\<lambda>c. if cr_user_id c = add_user_id form
                              then c\<lparr>cr_credit := numeric_write cfg (cr_credit c + add_amount form),
                                     cr_updated_at := now e\<rparr>
                              else c)
                      (credit_tbl (store w1))\<rparr>
          | Inl err \<Rightarrow> store w' = store w1)"
proof -
  obtain f w2 where d: "db_call w1 = (f, w2)" by (cases "db_call w1")
  from db_call_cases[OF d] have s2: "store w2 = store w1" by simp
  show ?thesis
  proof (cases f)
    case True
    with d run have "res = Inl (OperationalError ''update failed'')" "w' = w2"
      by (auto simp: add_credit_transaction_def Let_def)
    with s2 show ?thesis by simp
  next
    case False
    let ?v = "if log_id lm \<in> set (map log_id (credit_log_tbl (store w1)))
              then Some ''credit_log.id'' else None"
    let ?upd = "\<lambda>c. if cr_user_id c = add_user_id form
                    then c\<lparr>cr_credit := numeric_write cfg (cr_credit c + add_amount form),
                           cr_updated_at := now e\<rparr>
                    else c"
    let ?work = "(store w1)\<lparr>credit_log_tbl := credit_log_tbl (store w1) @ [write_log cfg lm],
                    credit_tbl := map ?upd (credit_tbl (store w1))\<rparr>"
    obtain a w3 where c: "commit ?v ?work w2 = (a, w3)" by (cases "commit ?v ?work w2")
    show ?thesis
    proof (cases a)
      case (Inl err)
      with d False c run have "res = Inl err" "w' = w3"
        by (auto simp: add_credit_transaction_def Let_def)
      with commit_Inl[OF c[unfolded Inl]] s2 show ?thesis by simp
    next
      case (Inr x)
      obtain r w4 where g: "get_credit_by_user_id cfg (add_user_id form) w3 = (r, w4)"
        by (cases "get_credit_by_user_id cfg (add_user_id form) w3")
      from d False c Inr g run have res: "res = Inr r" "w' = w4"
        by (auto simp: add_credit_transaction_def Let_def)
      from commit_Inr[OF c[unfolded Inr]] get_credit_cases[OF g]
      have s4: "store w4 = ?work" by simp
      with res show ?thesis by simp
    qed
  qed
qed

lemma add_credit_cases:
  assumes run: "add_credit_by_user_id cfg e form w = (res, w')"
  shows "(case res of
            Inr r \<Rightarrow>
              credit_log_tbl (store w') =
                credit_log_tbl (store w) @
                  [write_log cfg
                     (CreditLogModel e (add_user_id form)
                        (balance cfg (store w) (add_user_id form) + add_amount form)
                        (add_detail form))] \<and>
              trade_ticket_tbl (store w') = trade_ticket_tbl (store w) \<and>
              (\<exists>c. find (\<lambda>c. cr_user_id c = add_user_id form) (credit_tbl (store w')) = Some c \<and>
                   cr_credit c =
                     numeric_write cfg (stored_balance cfg (store w) (add_user_id form) + add_amount form))
          | Inl err \<Rightarrow>
              credit_log_tbl (store w') = credit_log_tbl (store w) \<and>
              (credit_tbl (store w') = credit_tbl (store w) \<or>
               credit_tbl (store w') =
                 credit_tbl (store w) @
                   [write_credit cfg (CreditModel e (add_user_id form) (CREDIT_DEFAULT_CREDIT cfg))] \<and>
               add_user_id form \<notin> set (map cr_user_id (credit_tbl (store w)))))"
proof -
  let ?u = "add_user_id form"
  obtain rs w1 where s: "add_credit_snapshot cfg e form w = (rs, w1)"
    by (cases "add_credit_snapshot cfg e form w")
  note sc = add_credit_snapshot_cases[OF s]
  show ?thesis
  proof (cases rs)
    case (Inl err)
    with s run have "res = Inl err" "w' = w1"
      by (auto simp: add_credit_by_user_id_def)
    with sc show ?thesis by auto
  next
    case (Inr lm)
    with s run have t: "add_credit_transaction cfg e form lm w1 = (res, w')"
      by (simp add: add_credit_by_user_id_def)
    note tc = add_credit_transaction_cases[OF t]
    from sc Inr obtain c1 where lm: "lm = CreditLogModel e ?u (balance cfg (store w) ?u + add_amount form)
        (add_detail form)"
      and f1: "find (\<lambda>c. cr_user_id c = ?u) (credit_tbl (store w1)) = Some c1"
      and c1: "cr_credit c1 = stored_balance cfg (store w) ?u"
      by auto
    from find_user_Some[OF f1] have u1: "cr_user_id c1 = ?u" by simp
    let ?upd = "\<lambda>c. if cr_user_id c = ?u
                    then c\<lparr>cr_credit := numeric_write cfg (cr_credit c + add_amount form),
                           cr_updated_at := now e\<rparr>
                    else c"
    have fm: "find (\<lambda>c. cr_user_id c = ?u) (map ?upd (credit_tbl (store w1))) = Some (?upd c1)"
      by (subst find_map_preserve) (auto simp: f1)
    show ?thesis
    proof (cases res)
      case (Inl err)
      with tc sc show ?thesis by auto
    next
      case (Inr r)
      with tc sc lm fm c1 u1 show ?thesis by auto
    qed
  qed
qed

section \<open>Runs without faults\<close>

lemma init_credit_no_fault:
  assumes nf: "faults w = []"
    and fresh: "u \<in> set (map cr_user_id (credit_tbl (store w))) \<or>
                credit_uuid e \<notin> set (map cr_id (credit_tbl (store w)))"
  shows "\<exists>c w1. init_credit_by_user_id cfg e u w = (Inr c, w1) \<and> faults w1 = [] \<and>
           chat_errors w1 = chat_errors w"
proof (cases "find (\<lambda>c. cr_user_id c = u) (credit_tbl (store w))")
  case (Some c)
  with nf show ?thesis
    by (simp add: init_credit_by_user_id_def get_credit_no_fault)
next
  case None
  then have nu: "u \<notin> set (map cr_user_id (credit_tbl (store w)))"
    by (simp add: find_None_user)
  with fresh have fr: "credit_uuid e \<notin> set (map cr_id (credit_tbl (store w)))" by simp
  from nf None nu fr show ?thesis
    by (simp add: init_credit_by_user_id_def get_credit_no_fault insert_new_credit_def
        commit_no_fault db_call_no_fault CreditModel_def Let_def)
qed

text \<open>Without faults and with a new uuid for the log row, a set returns the row read back.\<close>

lemma set_credit_no_fault:
  assumes nf: "faults w = []"
    and fresh: "set_user_id form \<in> set (map cr_user_id (credit_tbl (store w))) \<or>
                credit_uuid e \<notin> set (map cr_id (credit_tbl (store w)))"
    and flog: "log_uuid e \<notin> set (map log_id (credit_log_tbl (store w)))"
  shows "\<exists>c w'. set_credit_by_user_id cfg e form w = (Inr (Some c), w') \<and> faults w' = [] \<and>
           cr_user_id c = set_user_id form \<and>
           cr_credit c = numeric_read cfg (numeric_write cfg (set_credit form))"
proof -
  let ?u = "set_user_id form"
  from init_credit_no_fault[OF nf fresh, of cfg] obtain cm w1 where
    i: "init_credit_by_user_id cfg e ?u w = (Inr cm, w1)" and nf1: "faults w1 = []"
    by blast
  from init_credit_cases[OF i] obtain c1 where
    logs: "credit_log_tbl (store w1) = credit_log_tbl (store w)"
    and ucm: "cr_user_id cm = ?u"
    and f1: "find (\<lambda>c. cr_user_id c = ?u) (credit_tbl (store w1)) = Some c1"
    by auto
  from find_user_Some[OF f1] have u1: "cr_user_id c1 = ?u" by simp
  let ?upd = "\<lambda>c. if cr_user_id c = cr_user_id cm
                  then c\<lparr>cr_credit := numeric_write cfg (set_credit form),
                         cr_updated_at := now e\<rparr> else c"
  have fm: "find (\<lambda>c. cr_user_id c = ?u) (map ?upd (credit_tbl (store w1))) = Some (?upd c1)"
    by (subst find_map_preserve) (auto simp: f1)
  from flog logs have fl: "log_id (CreditLogModel e ?u (set_credit form) (set_detail form))
      \<notin> set (map log_id (credit_log_tbl (store w1)))"
    by (simp add: CreditLogModel_def)
  from i nf1 fl fm ucm u1 show ?thesis
    by (simp add: set_credit_by_user_id_def db_call_no_fault commit_no_fault get_credit_no_fault
        Let_def read_credit_def del: set_map)
qed

lemma add_credit_transaction_no_fault:
  assumes nf: "faults w1 = []"
    and flog: "log_id lm \<notin> set (map log_id (credit_log_tbl (store w1)))"
  shows "\<exists>r w'. add_credit_transaction cfg e form lm w1 = (Inr r, w') \<and> faults w' = [] \<and>
           chat_errors w' = chat_errors w1 \<and>
           r = map_option (read_credit cfg)
                 (find (\<lambda>c. cr_user_id c = add_user_id form) (credit_tbl (store w')))"
  using assms
  by (simp add: add_credit_transaction_def db_call_no_fault commit_no_fault get_credit_no_fault
      Let_def del: set_map)

text \<open>Without faults and with a new uuid for the log row, an add returns the row read back.\<close>

lemma add_credit_no_fault:
  assumes nf: "faults w = []"
    and fresh: "add_user_id form \<in> set (map cr_user_id (credit_tbl (store w))) \<or>
                credit_uuid e \<notin> set (map cr_id (credit_tbl (store w)))"
    and flog: "log_uuid e \<notin> set (map log_id (credit_log_tbl (store w)))"
  shows "\<exists>c w'. add_credit_by_user_id cfg e form w = (Inr (Some c), w') \<and> faults w' = [] \<and>
           chat_errors w' = chat_errors w \<and> cr_user_id c = add_user_id form \<and>
           cr_credit c =
             numeric_read cfg
               (numeric_write cfg (stored_balance cfg (store w) (add_user_id form) + add_amount form))"
proof -
  let ?u = "add_user_id form"
  from init_credit_no_fault[OF nf fresh, of cfg] obtain cm w1 where
    i: "init_credit_by_user_id cfg e ?u w = (Inr cm, w1)" and nf1: "faults w1 = []"
    and ce: "chat_errors w1 = chat_errors w"
    by blast
  let ?lm = "CreditLogModel e ?u (cr_credit cm + add_amount form) (add_detail form)"
  from i have s: "add_credit_snapshot cfg e form w = (Inr ?lm, w1)"
    by (simp add: add_credit_snapshot_def)
  from init_credit_cases[OF i] have logs: "credit_log_tbl (store w1) = credit_log_tbl (store w)"
    by simp
  with flog have fl: "log_id ?lm \<notin> set (map log_id (credit_log_tbl (store w1)))"
    by (simp add: CreditLogModel_def)
  from add_credit_transaction_no_fault[OF nf1 fl, of cfg e form] obtain r w' where
    t: "add_credit_transaction cfg e form ?lm w1 = (Inr r, w')" and nf': "faults w' = []"
    and ce': "chat_errors w' = chat_errors w1"
    and r: "r = map_option (read_credit cfg) (find (\<lambda>c. cr_user_id c = ?u) (credit_tbl (store w')))"
    by blast
  from s t have run: "add_credit_by_user_id cfg e form w = (Inr r, w')"
    by (simp add: add_credit_by_user_id_def)
  from add_credit_cases[OF run] obtain c where
    f: "find (\<lambda>c. cr_user_id c = ?u) (credit_tbl (store w')) = Some c"
    and c: "cr_credit c = numeric_write cfg (stored_balance cfg (store w) ?u + add_amount form)"
    by auto
  from find_user_Some[OF f] have "cr_user_id c = ?u" by simp
  with run r f c nf' ce ce' show ?thesis
    by (simp add: read_credit_def)
qed

text \<open>A settlement without faults: the ticket's amount as read is added and one log row written.\<close>

lemma update_credit_no_fault:
  assumes nf: "faults w = []"
    and tk: "find (\<lambda>t. tk_id t = tid) (trade_ticket_tbl (store w)) = Some t"
    and fresh: "tk_user_id t \<in> set (map cr_user_id (credit_tbl (store w))) \<or>
                credit_uuid e \<notin> set (map cr_id (credit_tbl (store w)))"
    and flog: "log_uuid e \<notin> set (map log_id (credit_log_tbl (store w)))"
  shows "\<exists>w'. update_credit_by_id cfg e tid detail w = (None, w') \<and> faults w' = [] \<and>
           find (\<lambda>t. tk_id t = tid) (trade_ticket_tbl (store w')) = Some (t\<lparr>tk_detail := detail\<rparr>) \<and>
           credit_log_tbl (store w') =
             credit_log_tbl (store w) @
               [write_log cfg
                  (CreditLogModel e (tk_user_id t)
                     (balance cfg (store w) (tk_user_id t) + numeric_read cfg (tk_amount t))
                     (SetCreditFormDetail_desc ''payment success''))] \<and>
           (\<exists>c. find (\<lambda>c. cr_user_id c = tk_user_id t) (credit_tbl (store w')) = Some c \<and>
                cr_credit c =
                  numeric_write cfg
                    (stored_balance cfg (store w) (tk_user_id t) + numeric_read cfg (tk_amount t)))"
proof -
  let ?upd = "\<lambda>t. if tk_id t = tid then t\<lparr>tk_detail := detail\<rparr> else t"
  let ?work = "(store w)\<lparr>trade_ticket_tbl := map ?upd (trade_ticket_tbl (store w))\<rparr>"
  let ?w2 = "w\<lparr>store := ?work\<rparr>"
  let ?form = "\<lparr>add_user_id = tk_user_id t, add_amount = numeric_read cfg (tk_amount t),
                add_detail = SetCreditFormDetail_desc ''payment success''\<rparr>"
  from tk have tid: "tk_id t = tid" by (auto simp: find_Some_iff)
  have ft: "find (\<lambda>t. tk_id t = tid) (map ?upd (trade_ticket_tbl (store w))) =
              Some (t\<lparr>tk_detail := detail\<rparr>)"
    by (subst find_map_preserve) (auto simp: tk tid)
  have "\<exists>c w'. add_credit_by_user_id cfg e ?form ?w2 = (Inr (Some c), w') \<and> faults w' = [] \<and>
           chat_errors w' = chat_errors ?w2 \<and> cr_user_id c = add_user_id ?form \<and>
           cr_credit c =
             numeric_read cfg
               (numeric_write cfg (stored_balance cfg (store ?w2) (add_user_id ?form) + add_amount ?form))"
    by (rule add_credit_no_fault) (use nf fresh flog in simp_all)
  then obtain r w' where a: "add_credit_by_user_id cfg e ?form ?w2 = (Inr r, w')"
    and nf': "faults w' = []"
    by auto
  from add_credit_cases[OF a] obtain c where
    logs: "credit_log_tbl (store w') = credit_log_tbl (store w) @
             [write_log cfg
                (CreditLogModel e (tk_user_id t)
                   (balance cfg ?work (tk_user_id t) + numeric_read cfg (tk_amount t))
                   (SetCreditFormDetail_desc ''payment success''))]"
    and tk': "trade_ticket_tbl (store w') = map ?upd (trade_ticket_tbl (store w))"
    and fc: "find (\<lambda>c. cr_user_id c = tk_user_id t) (credit_tbl (store w')) = Some c"
    and cc: "cr_credit c =
               numeric_write cfg (stored_balance cfg ?work (tk_user_id t) + numeric_read cfg (tk_amount t))"
    by auto
  have bw: "balance cfg ?work (tk_user_id t) = balance cfg (store w) (tk_user_id t)"
    "stored_balance cfg ?work (tk_user_id t) = stored_balance cfg (store w) (tk_user_id t)"
    by (simp_all add: balance_def stored_balance_def)
  have run: "update_credit_by_id cfg e tid detail w = (None, w')"
    using nf ft a
    by (simp add: update_credit_by_id_def db_call_no_fault commit_no_fault get_ticket_by_id_def
        Let_def read_ticket_def)
  from run nf' tk' ft logs bw fc cc show ?thesis
    by auto
qed

text \<open>The example configuration writes a value as it is.\<close>

lemma example_write:
  "numeric_write example_config x = x" "write_log example_config l = l"
  by (simp_all add: example_config_def write_log_def)

section \<open>Atomicity of set and add\<close>

text \<open>A first row with the default balance changes the stored balance of no user.\<close>

lemma stored_balance_default_row:
  assumes "u \<notin> set (map cr_user_id (credit_tbl d))"
    and "credit_tbl d' = credit_tbl d @ [write_credit cfg (CreditModel e u (CREDIT_DEFAULT_CREDIT cfg))]"
  shows "stored_balance cfg d' u' = stored_balance cfg d u'"
proof (cases "u' = u")
  case True
  let ?row = "write_credit cfg (CreditModel e u (CREDIT_DEFAULT_CREDIT cfg))"
  from assms(1) have n: "find (\<lambda>c. cr_user_id c = u) (credit_tbl d) = None"
    by (simp add: find_None_user)
  then have "find (\<lambda>c. cr_user_id c = u) (credit_tbl d @ [?row]) = Some ?row"
    by (rule find_append_new) (simp add: CreditModel_def write_credit_def)
  with True n assms(2) show ?thesis
    by (simp add: stored_balance_def CreditModel_def write_credit_def)
next
  case False
  let ?row = "write_credit cfg (CreditModel e u (CREDIT_DEFAULT_CREDIT cfg))"
  from False have "find (\<lambda>c. cr_user_id c = u') (credit_tbl d @ [?row])
               = find (\<lambda>c. cr_user_id c = u') (credit_tbl d)"
    by (intro find_append_other) (simp add: CreditModel_def write_credit_def)
  with assms(2) show ?thesis
    by (simp add: stored_balance_def)
qed

lemma stored_balance_same_table:
  "credit_tbl d' = credit_tbl d \<Longrightarrow> stored_balance cfg d' u = stored_balance cfg d u"
  by (simp add: stored_balance_def)

lemma stored_unchanged:
  assumes "credit_tbl d' = credit_tbl d \<or>
           credit_tbl d' = credit_tbl d @ [write_credit cfg (CreditModel e u (CREDIT_DEFAULT_CREDIT cfg))] \<and>
           u \<notin> set (map cr_user_id (credit_tbl d))"
  shows "stored_balance cfg d' u' = stored_balance cfg d u'"
  using assms stored_balance_same_table [of d' d cfg u']
    stored_balance_default_row [of u d d' cfg e u']
  by blast

text \<open>
  C2. In every run of \<open>set_credit_by_user_id\<close> and of \<open>add_credit_by_user_id\<close>, whatever the
  fault schedule: when the call returns, the log row is appended and the credit column of
  the user's row holds the new value as the column keeps it (for set, the value of the
  form; for add, the stored value before plus the amount); when the call raises, the log
  table is as before and the stored balance of every user is as before. The only row a
  failed call can leave behind is the one that \<open>init_credit_by_user_id\<close> creates, with the
  default balance, for a user who had none; it is committed on its own before the block
  that writes the log and the balance. And both calls do return when no persistence error
  occurs (the uuids drawn being new): with the user's row as read back, whose credit is
  the new value as the column keeps and returns it.
\<close>

theorem set_and_add_are_atomic:
  "(case set_credit_by_user_id cfg e sform w of
      (Inr r, w') \<Rightarrow>
        credit_log_tbl (store w') =
          credit_log_tbl (store w) @
            [write_log cfg
               (CreditLogModel e (set_user_id sform) (set_credit sform) (set_detail sform))] \<and>
        (\<exists>c. find (\<lambda>c. cr_user_id c = set_user_id sform) (credit_tbl (store w')) = Some c \<and>
             cr_credit c = numeric_write cfg (set_credit sform))
    | (Inl err, w') \<Rightarrow>
        credit_log_tbl (store w') = credit_log_tbl (store w) \<and>
        (\<forall>u. stored_balance cfg (store w') u = stored_balance cfg (store w) u) \<and>
        (credit_tbl (store w') = credit_tbl (store w) \<or>
         credit_tbl (store w') =
           credit_tbl (store w) @
             [write_credit cfg (CreditModel e (set_user_id sform) (CREDIT_DEFAULT_CREDIT cfg))])) \<and>
   (case add_credit_by_user_id cfg e aform w of
      (Inr r, w') \<Rightarrow>
        credit_log_tbl (store w') =
          credit_log_tbl (store w) @
            [write_log cfg
               (CreditLogModel e (add_user_id aform)
                  (balance cfg (store w) (add_user_id aform) + add_amount aform) (add_detail aform))] \<and>
        (\<exists>c. find (\<lambda>c. cr_user_id c = add_user_id aform) (credit_tbl (store w')) = Some c \<and>
             cr_credit c =
               numeric_write cfg (stored_balance cfg (store w) (add_user_id aform) + add_amount aform))
    | (Inl err, w') \<Rightarrow>
        credit_log_tbl (store w') = credit_log_tbl (store w) \<and>
        (\<forall>u. stored_balance cfg (store w') u = stored_balance cfg (store w) u) \<and>
        (credit_tbl (store w') = credit_tbl (store w) \<or>
         credit_tbl (store w') =
           credit_tbl (store w) @
             [write_credit cfg (CreditModel e (add_user_id aform) (CREDIT_DEFAULT_CREDIT cfg))])) \<and>
   (faults w = [] \<and>
    (set_user_id sform \<in> set (map cr_user_id (credit_tbl (store w))) \<or>
     credit_uuid e \<notin> set (map cr_id (credit_tbl (store w)))) \<and>
    log_uuid e \<notin> set (map log_id (credit_log_tbl (store w))) \<longrightarrow>
      (\<exists>c w'. set_credit_by_user_id cfg e sform w = (Inr (Some c), w') \<and>
              cr_user_id c = set_user_id sform \<and>
              cr_credit c = numeric_read cfg (numeric_write cfg (set_credit sform)))) \<and>
   (faults w = [] \<and>
    (add_user_id aform \<in> set (map cr_user_id (credit_tbl (store w))) \<or>
     credit_uuid e \<notin> set (map cr_id (credit_tbl (store w)))) \<and>
    log_uuid e \<notin> set (map log_id (credit_log_tbl (store w))) \<longrightarrow>
      (\<exists>c w'. add_credit_by_user_id cfg e aform w = (Inr (Some c), w') \<and>
              cr_user_id c = add_user_id aform \<and>
              cr_credit c =
                numeric_read cfg
                  (numeric_write cfg
                     (stored_balance cfg (store w) (add_user_id aform) + add_amount aform))))"
proof (intro conjI)
  obtain res w' where run: "set_credit_by_user_id cfg e sform w = (res, w')"
    by (cases "set_credit_by_user_id cfg e sform w")
  show "case set_credit_by_user_id cfg e sform w of
      (Inr r, w') \<Rightarrow>
        credit_log_tbl (store w') =
          credit_log_tbl (store w) @
            [write_log cfg
               (CreditLogModel e (set_user_id sform) (set_credit sform) (set_detail sform))] \<and>
        (\<exists>c. find (\<lambda>c. cr_user_id c = set_user_id sform) (credit_tbl (store w')) = Some c \<and>
             cr_credit c = numeric_write cfg (set_credit sform))
    | (Inl err, w') \<Rightarrow>
        credit_log_tbl (store w') = credit_log_tbl (store w) \<and>
        (\<forall>u. stored_balance cfg (store w') u = stored_balance cfg (store w) u) \<and>
        (credit_tbl (store w') = credit_tbl (store w) \<or>
         credit_tbl (store w') =
           credit_tbl (store w) @
             [write_credit cfg (CreditModel e (set_user_id sform) (CREDIT_DEFAULT_CREDIT cfg))])"
  proof (cases res)
    case (Inl err)
    with set_credit_cases[OF run] have logs: "credit_log_tbl (store w') = credit_log_tbl (store w)"
      and tbl: "credit_tbl (store w') = credit_tbl (store w) \<or>
         credit_tbl (store w') =
           credit_tbl (store w) @
             [write_credit cfg (CreditModel e (set_user_id sform) (CREDIT_DEFAULT_CREDIT cfg))] \<and>
         set_user_id sform \<notin> set (map cr_user_id (credit_tbl (store w)))"
      by simp_all
    from stored_unchanged[OF tbl] logs tbl Inl run show ?thesis
      by auto
  next
    case (Inr r)
    with set_credit_cases[OF run] run show ?thesis
      by simp
  qed
next
  obtain res w' where run: "add_credit_by_user_id cfg e aform w = (res, w')"
    by (cases "add_credit_by_user_id cfg e aform w")
  show "case add_credit_by_user_id cfg e aform w of
      (Inr r, w') \<Rightarrow>
        credit_log_tbl (store w') =
          credit_log_tbl (store w) @
            [write_log cfg
               (CreditLogModel e (add_user_id aform)
                  (balance cfg (store w) (add_user_id aform) + add_amount aform) (add_detail aform))] \<and>
        (\<exists>c. find (\<lambda>c. cr_user_id c = add_user_id aform) (credit_tbl (store w')) = Some c \<and>
             cr_credit c =
               numeric_write cfg (stored_balance cfg (store w) (add_user_id aform) + add_amount aform))
    | (Inl err, w') \<Rightarrow>
        credit_log_tbl (store w') = credit_log_tbl (store w) \<and>
        (\<forall>u. stored_balance cfg (store w') u = stored_balance cfg (store w) u) \<and>
        (credit_tbl (store w') = credit_tbl (store w) \<or>
         credit_tbl (store w') =
           credit_tbl (store w) @
             [write_credit cfg (CreditModel e (add_user_id aform) (CREDIT_DEFAULT_CREDIT cfg))])"
  proof (cases res)
    case (Inl err)
    with add_credit_cases[OF run] have logs: "credit_log_tbl (store w') = credit_log_tbl (store w)"
      and tbl: "credit_tbl (store w') = credit_tbl (store w) \<or>
         credit_tbl (store w') =
           credit_tbl (store w) @
             [write_credit cfg (CreditModel e (add_user_id aform) (CREDIT_DEFAULT_CREDIT cfg))] \<and>
         add_user_id aform \<notin> set (map cr_user_id (credit_tbl (store w)))"
      by simp_all
    from stored_unchanged[OF tbl] logs tbl Inl run show ?thesis
      by auto
  next
    case (Inr r)
    with add_credit_cases[OF run] run show ?thesis
      by simp
  qed
next
  show "faults w = [] \<and>
    (set_user_id sform \<in> set (map cr_user_id (credit_tbl (store w))) \<or>
     credit_uuid e \<notin> set (map cr_id (credit_tbl (store w)))) \<and>
    log_uuid e \<notin> set (map log_id (credit_log_tbl (store w))) \<longrightarrow>
      (\<exists>c w'. set_credit_by_user_id cfg e sform w = (Inr (Some c), w') \<and>
              cr_user_id c = set_user_id sform \<and>
              cr_credit c = numeric_read cfg (numeric_write cfg (set_credit sform)))"
    using set_credit_no_fault [of w sform e cfg] by blast
next
  show "faults w = [] \<and>
    (add_user_id aform \<in> set (map cr_user_id (credit_tbl (store w))) \<or>
     credit_uuid e \<notin> set (map cr_id (credit_tbl (store w)))) \<and>
    log_uuid e \<notin> set (map log_id (credit_log_tbl (store w))) \<longrightarrow>
      (\<exists>c w'. add_credit_by_user_id cfg e aform w = (Inr (Some c), w') \<and>
              cr_user_id c = add_user_id aform \<and>
              cr_credit c =
                numeric_read cfg
                  (numeric_write cfg
                     (stored_balance cfg (store w) (add_user_id aform) + add_amount aform)))"
    using add_credit_no_fault [of w aform e cfg] by blast
qed

text \<open>
  A set whose commit fails leaves both tables as they were; the same set without faults
  returns the row with the credit 100, appends the log row and stores 100; an add of 4 to
  the balance 5/2 returns the row with 13/2, and log row and column both say 13/2.
\<close>

theorem set_and_add_are_atomic_witness:
  "credit_log_tbl (store (snd (set_credit_by_user_id example_config env1
      \<lparr>set_user_id = ''u2'', set_credit = 100, set_detail = SetCreditFormDetail_desc ''grant''\<rparr>
      (funded_world\<lparr>faults := [False, False, True]\<rparr>)))) = credit_log_tbl (store funded_world) \<and>
   credit_tbl (store (snd (set_credit_by_user_id example_config env1
      \<lparr>set_user_id = ''u2'', set_credit = 100, set_detail = SetCreditFormDetail_desc ''grant''\<rparr>
      (funded_world\<lparr>faults := [False, False, True]\<rparr>)))) = credit_tbl (store funded_world) \<and>
   (\<exists>c. fst (set_credit_by_user_id example_config env1
      \<lparr>set_user_id = ''u2'', set_credit = 100, set_detail = SetCreditFormDetail_desc ''grant''\<rparr>
      funded_world) = Inr (Some c) \<and> cr_user_id c = ''u2'' \<and> cr_credit c = 100) \<and>
   credit_log_tbl (store (snd (set_credit_by_user_id example_config env1
      \<lparr>set_user_id = ''u2'', set_credit = 100, set_detail = SetCreditFormDetail_desc ''grant''\<rparr>
      funded_world))) =
     credit_log_tbl (store funded_world) @
       [CreditLogModel env1 ''u2'' 100 (SetCreditFormDetail_desc ''grant'')] \<and>
   stored_balance example_config (store (snd (set_credit_by_user_id example_config env1
      \<lparr>set_user_id = ''u2'', set_credit = 100, set_detail = SetCreditFormDetail_desc ''grant''\<rparr>
      funded_world))) ''u2'' = 100 \<and>
   (\<exists>c. fst (add_credit_by_user_id example_config env1
      \<lparr>add_user_id = ''u2'', add_amount = 4, add_detail = SetCreditFormDetail_desc ''top up''\<rparr>
      funded_world) = Inr (Some c) \<and> cr_user_id c = ''u2'' \<and> cr_credit c = 13 / 2) \<and>
   credit_log_tbl (store (snd (add_credit_by_user_id example_config env1
      \<lparr>add_user_id = ''u2'', add_amount = 4, add_detail = SetCreditFormDetail_desc ''top up''\<rparr>
      funded_world))) =
     credit_log_tbl (store funded_world) @
       [CreditLogModel env1 ''u2'' (13 / 2) (SetCreditFormDetail_desc ''top up'')] \<and>
   stored_balance example_config (store (snd (add_credit_by_user_id example_config env1
      \<lparr>add_user_id = ''u2'', add_amount = 4, add_detail = SetCreditFormDetail_desc ''top up''\<rparr>
      funded_world))) ''u2'' = 13 / 2"
proof -
  let ?sform = "\<lparr>set_user_id = ''u2'', set_credit = 100,
                 set_detail = SetCreditFormDetail_desc ''grant''\<rparr>"
  let ?aform = "\<lparr>add_user_id = ''u2'', add_amount = 4,
                 add_detail = SetCreditFormDetail_desc ''top up''\<rparr>"
  let ?wf = "funded_world\<lparr>faults := [False, False, True]\<rparr>"
  let ?sf = "set_credit_by_user_id example_config env1 ?sform ?wf"
  let ?s = "set_credit_by_user_id example_config env1 ?sform funded_world"
  let ?a = "add_credit_by_user_id example_config env1 ?aform funded_world"
  have nf: "faults funded_world = []"
    by (simp add: funded_world_def)
  have fl: "log_uuid env1 \<notin> set (map log_id (credit_log_tbl (store funded_world)))"
    by (simp add: funded_world_def env1_def)
  have fr: "set_user_id ?sform \<in> set (map cr_user_id (credit_tbl (store funded_world))) \<or>
            credit_uuid env1 \<notin> set (map cr_id (credit_tbl (store funded_world)))"
    "add_user_id ?aform \<in> set (map cr_user_id (credit_tbl (store funded_world))) \<or>
            credit_uuid env1 \<notin> set (map cr_id (credit_tbl (store funded_world)))"
    by (simp_all add: funded_world_def)
  have set_val: "numeric_read example_config (numeric_write example_config (set_credit ?sform)) = 100"
    by code_simp
  have add_val: "numeric_read example_config
      (numeric_write example_config
         (stored_balance example_config (store funded_world) (add_user_id ?aform) +
          add_amount ?aform)) = 13 / 2"
    by code_simp
  have add_stored: "stored_balance example_config (store funded_world) (add_user_id ?aform) +
          add_amount ?aform = 13 / 2"
    by code_simp
  have add_snap: "balance example_config (store funded_world) (add_user_id ?aform) +
          add_amount ?aform = 13 / 2"
    by code_simp
  note inst_f = set_and_add_are_atomic [where cfg = example_config and e = env1
      and sform = ?sform and aform = ?aform and w = ?wf]
  note inst = set_and_add_are_atomic [where cfg = example_config and e = env1
      and sform = ?sform and aform = ?aform and w = funded_world]
  \<comment> \<open>the set whose commit fails\<close>
  have "fst ?sf = Inl (OperationalError ''commit failed'')"
    by code_simp
  then obtain wf' where sf: "?sf = (Inl (OperationalError ''commit failed''), wf')"
    by (cases ?sf) auto
  have "credit_tbl (store (snd ?sf)) \<noteq> credit_tbl (store ?wf) @
      [write_credit example_config
         (CreditModel env1 (set_user_id ?sform) (CREDIT_DEFAULT_CREDIT example_config))]"
    by code_simp
  then have new_row: "credit_tbl (store wf') \<noteq> credit_tbl (store ?wf) @
      [write_credit example_config
         (CreditModel env1 (set_user_id ?sform) (CREDIT_DEFAULT_CREDIT example_config))]"
    by (simp add: sf)
  note inst_f [THEN conjunct1, unfolded sf prod.case sum.case]
  with new_row
  have "credit_log_tbl (store wf') = credit_log_tbl (store ?wf) \<and>
        credit_tbl (store wf') = credit_tbl (store ?wf)"
    by blast
  then have faulted: "credit_log_tbl (store (snd ?sf)) = credit_log_tbl (store funded_world) \<and>
        credit_tbl (store (snd ?sf)) = credit_tbl (store funded_world)"
    by (simp add: sf)
  \<comment> \<open>the set without faults\<close>
  from inst [THEN conjunct2, THEN conjunct2, THEN conjunct1, THEN mp,
      OF conjI [OF nf conjI [OF fr(1) fl]]]
  obtain c w' where s: "?s = (Inr (Some c), w')"
    and sc: "cr_user_id c = ''u2''" "cr_credit c = 100"
    unfolding set_val by auto
  from inst [THEN conjunct1, unfolded s prod.case sum.case]
  have "credit_log_tbl (store w') =
          credit_log_tbl (store funded_world) @
            [write_log example_config
               (CreditLogModel env1 (set_user_id ?sform) (set_credit ?sform) (set_detail ?sform))] \<and>
        (\<exists>c. find (\<lambda>c. cr_user_id c = set_user_id ?sform) (credit_tbl (store w')) = Some c \<and>
             cr_credit c = numeric_write example_config (set_credit ?sform))"
    .
  then obtain cs where sl: "credit_log_tbl (store w') =
          credit_log_tbl (store funded_world) @
            [CreditLogModel env1 ''u2'' 100 (SetCreditFormDetail_desc ''grant'')]"
    and sfind: "find (\<lambda>c. cr_user_id c = ''u2'') (credit_tbl (store w')) = Some cs"
    and scr: "cr_credit cs = 100"
    by (auto simp: example_write)
  from balance_find [OF sfind, of example_config] scr
  have sb: "stored_balance example_config (store w') ''u2'' = 100"
    by simp
  \<comment> \<open>the add without faults\<close>
  from inst [THEN conjunct2, THEN conjunct2, THEN conjunct2, THEN mp,
      OF conjI [OF nf conjI [OF fr(2) fl]]]
  obtain c2 w2 where a: "?a = (Inr (Some c2), w2)"
    and ac: "cr_user_id c2 = ''u2''" "cr_credit c2 = 13 / 2"
    unfolding add_val by auto
  from inst [THEN conjunct2, THEN conjunct1, unfolded a prod.case sum.case]
  have "credit_log_tbl (store w2) =
          credit_log_tbl (store funded_world) @
            [write_log example_config
               (CreditLogModel env1 (add_user_id ?aform)
                  (balance example_config (store funded_world) (add_user_id ?aform) +
                   add_amount ?aform) (add_detail ?aform))] \<and>
        (\<exists>c. find (\<lambda>c. cr_user_id c = add_user_id ?aform) (credit_tbl (store w2)) = Some c \<and>
             cr_credit c =
               numeric_write example_config
                 (stored_balance example_config (store funded_world) (add_user_id ?aform) +
                  add_amount ?aform))"
    .
  then obtain ca where al: "credit_log_tbl (store w2) =
          credit_log_tbl (store funded_world) @
            [CreditLogModel env1 ''u2'' (13 / 2) (SetCreditFormDetail_desc ''top up'')]"
    and afind: "find (\<lambda>c. cr_user_id c = ''u2'') (credit_tbl (store w2)) = Some ca"
    and acr: "cr_credit ca = 13 / 2"
    unfolding add_stored add_snap example_write by auto
  from balance_find [OF afind, of example_config] acr
  have ab: "stored_balance example_config (store w2) ''u2'' = 13 / 2"
    by simp
  from faulted s sc sl sb a ac al ab show ?thesis
    by simp
qed

section \<open>The balance check\<close>

text \<open>
  C5. When nothing fails in the database (and the uuid for a first row is new),
  \<open>check_credit_by_user_id\<close> raises \<open>HTTPException(403, error_msg)\<close> exactly when the
  user's balance, as read, is at most zero and returns normally when it is greater. When
  it raises and the metadata is a dictionary with a truthy \<open>chat_id\<close> and a truthy
  \<open>message_id\<close> (or, failing that, a truthy \<open>id\<close>), the error for that chat message has
  been recorded in the returned state; in every other case nothing is recorded.
\<close>

theorem check_credit_by_balance:
  assumes nf: "faults w = []"
    and fresh: "u \<in> set (map cr_user_id (credit_tbl (store w))) \<or>
                credit_uuid e \<notin> set (map cr_id (credit_tbl (store w)))"
  shows "fst (check_credit_by_user_id cfg e u msg md w) =
           (if balance cfg (store w) u \<le> 0 then Inl (HTTPException 403 msg) else Inr ()) \<and>
         chat_errors (snd (check_credit_by_user_id cfg e u msg md w)) =
           (case md of
              None \<Rightarrow> chat_errors w
            | Some m \<Rightarrow>
                if balance cfg (store w) u \<le> 0 \<and> truthy (dict_get m ''chat_id'') \<and>
                   (truthy (dict_get m ''message_id'') \<or> truthy (dict_get m ''id''))
                then chat_errors w @
                       [(dict_get m ''chat_id'',
                         if truthy (dict_get m ''message_id'') then dict_get m ''message_id''
                         else dict_get m ''id'',
                         msg)]
                else chat_errors w)"
proof -
  from init_credit_no_fault[OF nf fresh, of cfg] obtain c w1 where
    i: "init_credit_by_user_id cfg e u w = (Inr c, w1)" and ce: "chat_errors w1 = chat_errors w"
    by blast
  from init_credit_cases[OF i] have b: "cr_credit c = balance cfg (store w) u" by simp
  have empty: "\<not> truthy (dict_get [] k)" for k
    by (simp add: dict_get_def)
  show ?thesis
  proof (cases md)
    case None
    with i ce b show ?thesis
      by (simp add: check_credit_by_user_id_def)
  next
    case (Some m)
    with i ce b empty show ?thesis
      by (cases "m = []") (simp_all add: check_credit_by_user_id_def Let_def upsert_message_error_def)
  qed
qed

theorem check_credit_by_balance_witness:
  "fst (check_credit_by_user_id example_config env1 ''u4'' ''insufficient credit''
          (Some [(''chat_id'', PStr ''chat-1''), (''message_id'', PStr ''msg-1'')]) funded_world) =
     Inl (HTTPException 403 ''insufficient credit'') \<and>
   chat_errors (snd (check_credit_by_user_id example_config env1 ''u4'' ''insufficient credit''
          (Some [(''chat_id'', PStr ''chat-1''), (''message_id'', PStr ''msg-1'')]) funded_world)) =
     [(PStr ''chat-1'', PStr ''msg-1'', ''insufficient credit'')] \<and>
   fst (check_credit_by_user_id example_config env1 ''u3'' ''insufficient credit''
          (Some [(''chat_id'', PStr ''chat-1''), (''message_id'', PStr ''msg-1'')]) funded_world) =
     Inr () \<and>
   chat_errors (snd (check_credit_by_user_id example_config env1 ''u3'' ''insufficient credit''
          (Some [(''chat_id'', PStr ''chat-1''), (''message_id'', PStr ''msg-1'')]) funded_world)) = []"
proof -
  have h1: "faults funded_world = []"
    by (simp add: funded_world_def)
  have h4: "''u4'' \<in> set (map cr_user_id (credit_tbl (store funded_world))) \<or>
            credit_uuid env1 \<notin> set (map cr_id (credit_tbl (store funded_world)))"
    by (simp add: funded_world_def)
  have h3: "''u3'' \<in> set (map cr_user_id (credit_tbl (store funded_world))) \<or>
            credit_uuid env1 \<notin> set (map cr_id (credit_tbl (store funded_world)))"
    by (simp add: funded_world_def)
  have b4: "balance example_config (store funded_world) ''u4'' = 0"
    by code_simp
  have b3: "balance example_config (store funded_world) ''u3'' = 1 / 1000000000000"
    by code_simp
  have ce: "chat_errors funded_world = []"
    by (simp add: funded_world_def)
  from check_credit_by_balance [OF h1 h4, of example_config "''insufficient credit''"
      "Some [(''chat_id'', PStr ''chat-1''), (''message_id'', PStr ''msg-1'')]"]
    check_credit_by_balance [OF h1 h3, of example_config "''insufficient credit''"
      "Some [(''chat_id'', PStr ''chat-1''), (''message_id'', PStr ''msg-1'')]"]
    b4 b3 ce
  show ?thesis
    by (simp add: dict_get_def)
qed

section \<open>Settlement\<close>

text \<open>
  C1, as the code has it. \<open>update_credit_by_id\<close> has no guard against a second call:
  without faults, for an existing ticket and new uuids, each of two calls with the same
  ticket id adds the ticket's amount, as read, to the user's stored balance and writes a
  log row with the balance read before plus the amount. When the column holds the balance
  before and the two sums exactly, the balance after the second call has grown by twice
  the amount and the two log rows say balance + amount and balance + 2 * amount.
\<close>

theorem settle_twice_credits_twice:
  assumes nf: "faults w = []"
    and tk: "find (\<lambda>t. tk_id t = tid) (trade_ticket_tbl (store w)) = Some t"
    and fresh: "tk_user_id t \<in> set (map cr_user_id (credit_tbl (store w))) \<or>
                credit_uuid e1 \<notin> set (map cr_id (credit_tbl (store w)))"
    and l1: "log_uuid e1 \<notin> set (map log_id (credit_log_tbl (store w)))"
    and l2: "log_uuid e2 \<notin> set (map log_id (credit_log_tbl (store w)))"
    and l12: "log_uuid e2 \<noteq> log_uuid e1"
  shows "(let w1 = snd (update_credit_by_id cfg e1 tid d1 w);
              w2 = snd (update_credit_by_id cfg e2 tid d2 w1);
              u = tk_user_id t;
              a = numeric_read cfg (tk_amount t);
              s = stored_balance cfg (store w) u;
              b = balance cfg (store w) u
          in stored_balance cfg (store w1) u = numeric_write cfg (s + a) \<and>
             stored_balance cfg (store w2) u = numeric_write cfg (numeric_write cfg (s + a) + a) \<and>
             map log_credit (credit_log_tbl (store w2)) =
               map log_credit (credit_log_tbl (store w)) @
                 [numeric_write cfg (b + a), numeric_write cfg (balance cfg (store w1) u + a)] \<and>
             (s = b \<and> kept cfg (b + a) \<and> kept cfg (b + 2 * a) \<longrightarrow>
                balance cfg (store w1) u = b + a \<and>
                balance cfg (store w2) u = b + 2 * a \<and>
                map log_credit (credit_log_tbl (store w2)) =
                  map log_credit (credit_log_tbl (store w)) @ [b + a, b + 2 * a]))"
proof -
  let ?u = "tk_user_id t"
  let ?a = "numeric_read cfg (tk_amount t)"
  let ?s = "stored_balance cfg (store w) ?u"
  let ?b = "balance cfg (store w) ?u"
  from update_credit_no_fault[OF nf tk fresh l1, of cfg d1] obtain w1 c1 where
    r1: "update_credit_by_id cfg e1 tid d1 w = (None, w1)" and nf1: "faults w1 = []"
    and tk1: "find (\<lambda>t. tk_id t = tid) (trade_ticket_tbl (store w1)) = Some (t\<lparr>tk_detail := d1\<rparr>)"
    and lg1: "credit_log_tbl (store w1) =
             credit_log_tbl (store w) @
               [write_log cfg (CreditLogModel e1 ?u (?b + ?a)
                  (SetCreditFormDetail_desc ''payment success''))]"
    and f1: "find (\<lambda>c. cr_user_id c = ?u) (credit_tbl (store w1)) = Some c1"
    and c1: "cr_credit c1 = numeric_write cfg (?s + ?a)"
    by blast
  from balance_find[OF f1, of cfg] c1 have s1: "stored_balance cfg (store w1) ?u = numeric_write cfg (?s + ?a)"
    and b1: "balance cfg (store w1) ?u = numeric_read cfg (numeric_write cfg (?s + ?a))"
    by simp_all
  have fresh1: "tk_user_id (t\<lparr>tk_detail := d1\<rparr>) \<in> set (map cr_user_id (credit_tbl (store w1))) \<or>
                credit_uuid e2 \<notin> set (map cr_id (credit_tbl (store w1)))"
    using find_user_Some[OF f1] by simp
  have l2': "log_uuid e2 \<notin> set (map log_id (credit_log_tbl (store w1)))"
    using l2 l12 lg1 by (simp add: CreditLogModel_def write_log_def)
  from update_credit_no_fault[OF nf1 tk1 fresh1 l2', of cfg d2] obtain w2 c2 where
    r2: "update_credit_by_id cfg e2 tid d2 w1 = (None, w2)"
    and lg2: "credit_log_tbl (store w2) =
             credit_log_tbl (store w1) @
               [write_log cfg (CreditLogModel e2 ?u (balance cfg (store w1) ?u + ?a)
                  (SetCreditFormDetail_desc ''payment success''))]"
    and f2: "find (\<lambda>c. cr_user_id c = ?u) (credit_tbl (store w2)) = Some c2"
    and c2: "cr_credit c2 = numeric_write cfg (stored_balance cfg (store w1) ?u + ?a)"
    by auto
  from balance_find[OF f2, of cfg] c2 s1
  have s2: "stored_balance cfg (store w2) ?u = numeric_write cfg (numeric_write cfg (?s + ?a) + ?a)"
    and b2: "balance cfg (store w2) ?u =
               numeric_read cfg (numeric_write cfg (numeric_write cfg (?s + ?a) + ?a))"
    by simp_all
  have logs: "map log_credit (credit_log_tbl (store w2)) =
               map log_credit (credit_log_tbl (store w)) @
                 [numeric_write cfg (?b + ?a), numeric_write cfg (balance cfg (store w1) ?u + ?a)]"
    using lg1 lg2 by (simp add: CreditLogModel_def write_log_def)
  have exact: "balance cfg (store w1) ?u = ?b + ?a \<and>
                balance cfg (store w2) ?u = ?b + 2 * ?a \<and>
                map log_credit (credit_log_tbl (store w2)) =
                  map log_credit (credit_log_tbl (store w)) @ [?b + ?a, ?b + 2 * ?a]"
    if h: "?s = ?b" "kept cfg (?b + ?a)" "kept cfg (?b + 2 * ?a)"
  proof -
    from h(2) have k1: "numeric_write cfg (?b + ?a) = ?b + ?a" "numeric_read cfg (?b + ?a) = ?b + ?a"
      by (simp_all add: kept_def)
    from h(3) have k2: "numeric_write cfg (?b + 2 * ?a) = ?b + 2 * ?a"
      "numeric_read cfg (?b + 2 * ?a) = ?b + 2 * ?a"
      by (simp_all add: kept_def)
    have sum: "?b + ?a + ?a = ?b + 2 * ?a" by simp
    from b1 h(1) k1 have b1': "balance cfg (store w1) ?u = ?b + ?a" by simp
    from b2 h(1) k1 k2 sum have b2': "balance cfg (store w2) ?u = ?b + 2 * ?a" by simp
    from logs b1' k1 k2 sum show ?thesis
      using b2' by simp
  qed
  from r1 have w1: "snd (update_credit_by_id cfg e1 tid d1 w) = w1" by simp
  from r2 have w2: "snd (update_credit_by_id cfg e2 tid d2 w1) = w2" by simp
  show ?thesis
    unfolding Let_def w1 w2 using s1 s2 logs exact by blast
qed

theorem settle_twice_credits_twice_witness:
  "balance example_config
     (store (snd (update_credit_by_id example_config env2 ''t2'' [(''status'', PStr ''again'')]
        (snd (update_credit_by_id example_config env1 ''t2'' [(''status'', PStr ''success'')]
           funded_world))))) ''u2'' = 5 / 2 + 2 * 3 \<and>
   stored_balance example_config
     (store (snd (update_credit_by_id example_config env2 ''t2'' [(''status'', PStr ''again'')]
        (snd (update_credit_by_id example_config env1 ''t2'' [(''status'', PStr ''success'')]
           funded_world))))) ''u2'' = 5 / 2 + 3 + 3"
proof -
  let ?t = "\<lparr>tk_id = ''t2'', tk_user_id = ''u2'', tk_amount = 3, tk_detail = [],
             tk_created_at = 1699990300\<rparr>"
  have h1: "faults funded_world = []"
    by (simp add: funded_world_def)
  have h2: "find (\<lambda>t. tk_id t = ''t2'') (trade_ticket_tbl (store funded_world)) = Some ?t"
    by (simp add: funded_world_def)
  have h3: "tk_user_id ?t \<in> set (map cr_user_id (credit_tbl (store funded_world))) \<or>
            credit_uuid env1 \<notin> set (map cr_id (credit_tbl (store funded_world)))"
    by (simp add: funded_world_def)
  have h4: "log_uuid env1 \<notin> set (map log_id (credit_log_tbl (store funded_world)))"
    by (simp add: funded_world_def env1_def)
  have h5: "log_uuid env2 \<notin> set (map log_id (credit_log_tbl (store funded_world)))"
    by (simp add: funded_world_def env2_def)
  have h6: "log_uuid env2 \<noteq> log_uuid env1"
    by (simp add: env1_def env2_def)
  have vals: "balance example_config (store funded_world) ''u2'' = 5 / 2"
    "stored_balance example_config (store funded_world) ''u2'' = 5 / 2"
    "numeric_read example_config 3 = 3"
    "kept example_config (11 / 2)" "kept example_config (17 / 2)"
    by code_simp+
  from settle_twice_credits_twice [OF h1 h2 h3 h4 h5 h6, of example_config
      "[(''status'', PStr ''success'')]" "[(''status'', PStr ''again'')]"]
  show ?thesis
    by (simp add: Let_def example_write vals)
qed

text \<open>
  C1 as stated fails: after two settlements of ticket \<open>t1\<close> over 10, starting from the
  balance 0, the balance is 20 and there are two log rows, with the snapshots 10 and 20.
\<close>

theorem settle_twice_counterexample:
  "balance example_config
     (store (snd (update_credit_by_id example_config env2 ''t1'' [(''status'', PStr ''success'')]
        (snd (update_credit_by_id example_config env1 ''t1'' [(''status'', PStr ''success'')]
           ticket_world))))) ''u1'' = 20 \<and>
   map log_credit
     (credit_log_tbl
        (store (snd (update_credit_by_id example_config env2 ''t1'' [(''status'', PStr ''success'')]
           (snd (update_credit_by_id example_config env1 ''t1'' [(''status'', PStr ''success'')]
              ticket_world)))))) = [10, 20]"
  by code_simp




section \<open>Creating a ticket twice\<close>

text \<open>
  C9, as the code has it. Creating a ticket whose id is already in the table raises an
  \<open>HTTPException\<close> with status 500 whose detail is the text of the exception caught (the
  violated primary key, or a fault), and leaves the database as it was.
\<close>

theorem insert_existing_ticket_fails:
  assumes "tid \<in> set (map tk_id (trade_ticket_tbl (store w)))"
  shows "\<exists>err. fst (insert_new_ticket cfg e tid u a d w) = Inl (HTTPException 500 (str_exn err)) \<and>
               store (snd (insert_new_ticket cfg e tid u a d w)) = store w"
proof (cases "faults w")
  case Nil
  with assms show ?thesis
    by (auto simp: insert_new_ticket_def commit_def db_call_def TradeTicketModel_def Let_def
        intro!: exI[of _ "IntegrityError (''UNIQUE constraint failed: trade_ticket.id'')"])
next
  case (Cons f fs)
  show ?thesis
  proof (cases f)
    case True
    with Cons assms show ?thesis
      by (auto simp: insert_new_ticket_def commit_def db_call_def TradeTicketModel_def Let_def
        intro!: exI[of _ "OperationalError ''commit failed''"])
  next
    case False
    with Cons assms show ?thesis
      by (auto simp: insert_new_ticket_def commit_def db_call_def TradeTicketModel_def Let_def
        intro!: exI[of _ "IntegrityError (''UNIQUE constraint failed: trade_ticket.id'')"])
  qed
qed

theorem insert_existing_ticket_fails_witness:
  "store (snd (insert_new_ticket example_config env2 ''t2'' ''u3'' 7 [] funded_world)) =
     store funded_world \<and>
   (\<exists>err. fst (insert_new_ticket example_config env2 ''t2'' ''u3'' 7 [] funded_world) =
           Inl (HTTPException 500 (str_exn err)))"
proof -
  have h: "''t2'' \<in> set (map tk_id (trade_ticket_tbl (store funded_world)))"
    by (simp add: funded_world_def)
  from insert_existing_ticket_fails [OF h, of example_config env2 "''u3''" 7 "[]"] show ?thesis
    by blast
qed

text \<open>
  C9 as stated fails on the kind of the error: the second creation of \<open>t1\<close> raises with
  status 500, the status of an internal error, not with a conflict.
\<close>

theorem insert_existing_ticket_counterexample:
  "fst (insert_new_ticket example_config env2 ''t1'' ''u2'' 5 [] ticket_world) =
     Inl (HTTPException 500 ''UNIQUE constraint failed: trade_ticket.id'')"
  by code_simp

section \<open>Listing the credit log\<close>

lemma sorted_desc_sort_key:
  "sorted_wrt (\<lambda>a b. log_created_at b \<le> log_created_at a)
     (map (read_log cfg) (sort_key (\<lambda>l. - log_created_at l) xs))"
proof -
  have "sorted (map (\<lambda>l. - log_created_at l) (sort_key (\<lambda>l. - log_created_at l) xs))"
    by (rule sorted_sort_key)
  then show ?thesis
    by (simp add: sorted_wrt_map read_log_def)
qed

text \<open>
  C10. In \<open>get_credit_log_by_user_id\<close> an offset of 0 is the same as no offset and a limit
  of 0 the same as no limit, whatever the other argument. With both 0 and no fault, the
  result holds every log row of the user as read, each as often as the table does, newest
  first.
\<close>

theorem credit_log_zero_is_unset:
  "get_credit_log_by_user_id cfg u (Some 0) limit w = get_credit_log_by_user_id cfg u None limit w \<and>
   get_credit_log_by_user_id cfg u offset (Some 0) w = get_credit_log_by_user_id cfg u offset None w \<and>
   (faults w = [] \<longrightarrow>
      (\<exists>logs. get_credit_log_by_user_id cfg u (Some 0) (Some 0) w = (Inr logs, w) \<and>
              mset logs =
                mset (map (read_log cfg)
                        (filter (\<lambda>l. log_user_id l = u) (credit_log_tbl (store w)))) \<and>
              sorted_wrt (\<lambda>a b. log_created_at b \<le> log_created_at a) logs))"
  by (simp add: get_credit_log_by_user_id_def Let_def db_call_no_fault sorted_desc_sort_key
      split: prod.splits)

theorem credit_log_zero_is_unset_witness:
  "faults funded_world = [] \<and>
   fst (get_credit_log_by_user_id example_config ''u2'' None None funded_world) =
     fst (get_credit_log_by_user_id example_config ''u2'' (Some 0) (Some 0) funded_world) \<and>
   (\<exists>logs. get_credit_log_by_user_id example_config ''u2'' (Some 0) (Some 0) funded_world =
             (Inr logs, funded_world) \<and>
           map log_id logs = [''lc'', ''la''] \<and>
           mset logs =
             mset (map (read_log example_config)
                     (filter (\<lambda>l. log_user_id l = ''u2'') (credit_log_tbl (store funded_world)))))"
proof -
  have nf: "faults funded_world = []"
    by (simp add: funded_world_def)
  have ev: "map log_id
              (projr (fst (get_credit_log_by_user_id example_config ''u2'' (Some 0) (Some 0)
                 funded_world))) =
            [''lc'', ''la'']"
    by code_simp
  note inst = credit_log_zero_is_unset [of example_config "''u2''" "Some 0" funded_world None]
  from inst nf obtain logs where
    run: "get_credit_log_by_user_id example_config ''u2'' (Some 0) (Some 0) funded_world =
            (Inr logs, funded_world)"
    and all: "mset logs =
      mset (map (read_log example_config)
              (filter (\<lambda>l. log_user_id l = ''u2'') (credit_log_tbl (store funded_world))))"
    by blast
  from ev run have ids: "map log_id logs = [''lc'', ''la'']"
    by simp
  from inst have "fst (get_credit_log_by_user_id example_config ''u2'' None None funded_world) =
     fst (get_credit_log_by_user_id example_config ''u2'' (Some 0) (Some 0) funded_world)"
    by simp
  with nf run ids all show ?thesis
    by (intro conjI exI [of _ logs]) assumption+
qed

end
